theory Spec2Isabelle
  imports Main "HOL-Library.Word"
begin

section \<open>The SPIFFS / SQLite3 example program (main/spiffs.c)\<close>

text \<open>
  The program is sequential glue code around two external libraries: the SPIFFS
  filesystem driver of ESP-IDF and the SQLite3 engine. The model below embeds every
  function of \<^verbatim>\<open>main/spiffs.c\<close> as a state-passing HOL function. The libraries are
  not part of the program: they are a parameter \<open>env\<close>, a record holding one function
  per library call, acting on an abstract state \<open>'w\<close> of the outside world (flash,
  files, engine, clock). The general theorems hold for every such environment and every
  state of the world.

  Everything the program does to the outside is appended to a trace of events, in the
  order of the source: each \<^verbatim>\<open>printf\<close>, each \<^verbatim>\<open>ESP_LOGx\<close> and each library call, with
  its arguments and the status it returned.
\<close>

subsection \<open>Data\<close>

text \<open>A \<^verbatim>\<open>sqlite3 *\<close> is an address; \<open>0\<close> is the null pointer.\<close>

type_synonym sqlite3 = nat

text \<open>\<^verbatim>\<open>esp_vfs_spiffs_conf_t\<close>, with the four fields that \<^verbatim>\<open>app_main\<close> initialises.\<close>

record esp_vfs_spiffs_conf =
  base_path :: string
  partition_label :: "string option"
  max_files :: nat
  format_if_mount_failed :: bool

text \<open>
  One result row as the engine hands it to the callback of \<^verbatim>\<open>sqlite3_exec\<close>: the
  column names and the column values, one of each per column; a value is absent
  (a null \<^verbatim>\<open>char *\<close>) for SQL NULL.
\<close>

type_synonym row = "(string \<times> string option) list"

datatype level = Info | Error

datatype event =
    Stdout string
  | Log level string string
  | Esp_vfs_spiffs_register esp_vfs_spiffs_conf int
  | Esp_spiffs_info "string option" int
  | Unlink string
  | Sqlite3_initialize
  | Sqlite3_open string int sqlite3
  | Sqlite3_errmsg sqlite3
  | Sqlite3_exec sqlite3 string int
  | Sqlite3_free "string option"
  | Sqlite3_close sqlite3
  | Esp_vfs_spiffs_unregister "string option"
  | Esp_timer_get_time "64 word"

text \<open>
  The library calls of the program. A call takes the arguments that the source passes
  and the state of the world, and returns what the source reads back and the new state
  of the world. \<^verbatim>\<open>sqlite3_open\<close> returns its status and the handle it stores through
  its second argument; \<^verbatim>\<open>sqlite3_exec\<close> is given the current content of the message
  pointer whose address it receives, and returns its status, the rows it delivered to
  the callback and the new content of that pointer; \<^verbatim>\<open>esp_spiffs_info\<close> returns its
  status and the two sizes (\<^verbatim>\<open>size_t\<close>, 32 bits on the target).
\<close>

record 'w env =
  esp_vfs_spiffs_register :: "esp_vfs_spiffs_conf \<Rightarrow> 'w \<Rightarrow> int \<times> 'w"
  esp_spiffs_info :: "string option \<Rightarrow> 'w \<Rightarrow> (int \<times> 32 word \<times> 32 word) \<times> 'w"
  esp_err_to_name :: "int \<Rightarrow> string"
  unlink :: "string \<Rightarrow> 'w \<Rightarrow> 'w"
  sqlite3_initialize :: "'w \<Rightarrow> 'w"
  sqlite3_open :: "string \<Rightarrow> 'w \<Rightarrow> (int \<times> sqlite3) \<times> 'w"
  sqlite3_errmsg :: "sqlite3 \<Rightarrow> 'w \<Rightarrow> string"
  sqlite3_exec :: "sqlite3 \<Rightarrow> string \<Rightarrow> string option \<Rightarrow> 'w \<Rightarrow> (int \<times> row list \<times> string option) \<times> 'w"
  sqlite3_free :: "string option \<Rightarrow> 'w \<Rightarrow> 'w"
  sqlite3_close :: "sqlite3 \<Rightarrow> 'w \<Rightarrow> 'w"
  esp_vfs_spiffs_unregister :: "string option \<Rightarrow> 'w \<Rightarrow> 'w"
  esp_timer_get_time :: "'w \<Rightarrow> 64 word \<times> 'w"

text \<open>
  The state of a run: the four global variables of the file, the outside world, and the
  trace so far.
\<close>

record 'w state =
  zErrMsg :: "string option"
  db1 :: sqlite3
  db2 :: sqlite3
  rc :: int
  world :: 'w
  trace :: "event list"

text \<open>Globals of a C program start zeroed; \<^verbatim>\<open>zErrMsg\<close> is initialised to 0.\<close>

definition init_state :: "'w \<Rightarrow> 'w state" where
  "init_state w = \<lparr>zErrMsg = None, db1 = 0, db2 = 0, rc = 0, world = w, trace = []\<rparr>"

definition TAG :: string where
  "TAG = ''sqlite3_spiffs''"

definition data :: string where
  "data = ''Callback function called''"

text \<open>
  Modelled from the spec: the status codes of \<^verbatim>\<open>sqlite3.h\<close> and \<^verbatim>\<open>esp_err.h\<close>, headers
  of the two libraries that are not among the sources of the program. The spec only tells
  a success code from failure codes; the values are those of the headers (\<^verbatim>\<open>SQLITE_OK\<close>
  is 0 by the doc comment of \<^verbatim>\<open>db_exec\<close>). The general theorems below hold whatever
  the values are; only the runs of the simulated libraries compute with them.
\<close>

definition SQLITE_OK :: int where
  "SQLITE_OK = 0"

definition ESP_OK :: int where
  "ESP_OK = 0"

definition ESP_FAIL :: int where
  "ESP_FAIL = - 1"

definition ESP_ERR_NOT_FOUND :: int where
  "ESP_ERR_NOT_FOUND = 261"

subsection \<open>Output\<close>

text \<open>Decimal rendering, for the conversions \<^verbatim>\<open>%d\<close> and \<^verbatim>\<open>%lld\<close>.\<close>

fun dec_nat :: "nat \<Rightarrow> string" where
  "dec_nat n = (if n < 10 then [char_of (48 + n)]
                else dec_nat (n div 10) @ [char_of (48 + n mod 10)])"

definition dec_int :: "int \<Rightarrow> string" where
  "dec_int i = (if i < 0 then ''-'' @ dec_nat (nat (- i)) else dec_nat (nat i))"

text \<open>
  The conversion \<^verbatim>\<open>%s\<close> of a \<^verbatim>\<open>char *\<close> that may be null: the C library of the target
  prints the text \<^verbatim>\<open>(null)\<close> for a null pointer.
\<close>

definition str_arg :: "string option \<Rightarrow> string" where
  "str_arg p = (case p of None \<Rightarrow> ''(null)'' | Some m \<Rightarrow> m)"

definition emit :: "event \<Rightarrow> 'w state \<Rightarrow> 'w state" where
  "emit e s = s\<lparr>trace := trace s @ [e]\<rparr>"

definition printf :: "string \<Rightarrow> 'w state \<Rightarrow> 'w state" where
  "printf text s = emit (Stdout text) s"

definition ESP_LOGI :: "string \<Rightarrow> string \<Rightarrow> 'w state \<Rightarrow> 'w state" where
  "ESP_LOGI tag text s = emit (Log Info tag text) s"

definition ESP_LOGE :: "string \<Rightarrow> string \<Rightarrow> 'w state \<Rightarrow> 'w state" where
  "ESP_LOGE tag text s = emit (Log Error tag text) s"

subsection \<open>The row callback\<close>

text \<open>
  \<^verbatim>\<open>callback(data, argc, argv, azColName)\<close> reads \<^verbatim>\<open>azColName[i]\<close> and \<^verbatim>\<open>argv[i]\<close> for
  \<open>i\<close> from 0 below \<open>argc\<close>. A read past the end of an array is undefined in C; the
  model returns \<open>Inl Out_of_bounds\<close> there. Otherwise the result is the value returned
  (always 0) and the texts printed, one per \<^verbatim>\<open>printf\<close>. The function reads no global
  variable: its parameter \<^verbatim>\<open>data\<close> hides the global of that name.
\<close>

datatype error = Out_of_bounds

definition at_index :: "'a list \<Rightarrow> int \<Rightarrow> 'a option" where
  "at_index xs i = (if 0 \<le> i \<and> i < int (length xs) then Some (xs ! nat i) else None)"

function callback_loop ::
  "int \<Rightarrow> int \<Rightarrow> string option list \<Rightarrow> string list \<Rightarrow> string list \<Rightarrow> error + string list" where
  "callback_loop i argc argv azColName out =
     (if i < argc then
        (case (at_index azColName i, at_index argv i) of
           (Some name, Some v) \<Rightarrow>
             callback_loop (i + 1) argc argv azColName
               (out @ [name @ '' = '' @ (case v of Some text \<Rightarrow> text | None \<Rightarrow> ''NULL'') @ ''\<newline>''])
         | _ \<Rightarrow> Inl Out_of_bounds)
      else Inr out)"
  by pat_completeness auto
termination
  by (relation "measure (\<lambda>(i, argc, argv, azColName, out). nat (argc - i))") auto

declare callback_loop.simps [simp del]

definition callback ::
  "string \<Rightarrow> int \<Rightarrow> string option list \<Rightarrow> string list \<Rightarrow> error + (int \<times> string list)" where
  "callback data' argc argv azColName =
     (case callback_loop 0 argc argv azColName [data' @ '': \<newline>''] of
        Inl e \<Rightarrow> Inl e
      | Inr out \<Rightarrow> Inr (0, out @ [''\<newline>'']))"

subsection \<open>Library calls, recorded in the trace\<close>

definition call_esp_vfs_spiffs_register ::
  "'w env \<Rightarrow> esp_vfs_spiffs_conf \<Rightarrow> 'w state \<Rightarrow> int \<times> 'w state" where
  "call_esp_vfs_spiffs_register env conf s =
     (let (ret, w) = esp_vfs_spiffs_register env conf (world s)
      in (ret, emit (Esp_vfs_spiffs_register conf ret) (s\<lparr>world := w\<rparr>)))"

definition call_esp_spiffs_info ::
  "'w env \<Rightarrow> string option \<Rightarrow> 'w state \<Rightarrow> (int \<times> 32 word \<times> 32 word) \<times> 'w state" where
  "call_esp_spiffs_info env label s =
     (let ((ret, total, used), w) = esp_spiffs_info env label (world s)
      in ((ret, total, used), emit (Esp_spiffs_info label ret) (s\<lparr>world := w\<rparr>)))"

definition call_unlink :: "'w env \<Rightarrow> string \<Rightarrow> 'w state \<Rightarrow> 'w state" where
  "call_unlink env path s = emit (Unlink path) (s\<lparr>world := unlink env path (world s)\<rparr>)"

definition call_sqlite3_initialize :: "'w env \<Rightarrow> 'w state \<Rightarrow> 'w state" where
  "call_sqlite3_initialize env s =
     emit Sqlite3_initialize (s\<lparr>world := sqlite3_initialize env (world s)\<rparr>)"

definition call_sqlite3_errmsg :: "'w env \<Rightarrow> sqlite3 \<Rightarrow> 'w state \<Rightarrow> string \<times> 'w state" where
  "call_sqlite3_errmsg env db s = (sqlite3_errmsg env db (world s), emit (Sqlite3_errmsg db) s)"

definition call_sqlite3_free :: "'w env \<Rightarrow> string option \<Rightarrow> 'w state \<Rightarrow> 'w state" where
  "call_sqlite3_free env p s =
     emit (Sqlite3_free p) (s\<lparr>world := sqlite3_free env p (world s)\<rparr>)"

definition call_sqlite3_close :: "'w env \<Rightarrow> sqlite3 \<Rightarrow> 'w state \<Rightarrow> 'w state" where
  "call_sqlite3_close env db s =
     emit (Sqlite3_close db) (s\<lparr>world := sqlite3_close env db (world s)\<rparr>)"

definition call_esp_vfs_spiffs_unregister ::
  "'w env \<Rightarrow> string option \<Rightarrow> 'w state \<Rightarrow> 'w state" where
  "call_esp_vfs_spiffs_unregister env label s =
     emit (Esp_vfs_spiffs_unregister label)
       (s\<lparr>world := esp_vfs_spiffs_unregister env label (world s)\<rparr>)"

definition call_esp_timer_get_time :: "'w env \<Rightarrow> 'w state \<Rightarrow> 64 word \<times> 'w state" where
  "call_esp_timer_get_time env s =
     (let (t, w) = esp_timer_get_time env (world s)
      in (t, emit (Esp_timer_get_time t) (s\<lparr>world := w\<rparr>)))"

text \<open>
  \<^verbatim>\<open>sqlite3_exec(db, sql, callback, data, &zErrMsg)\<close>: the engine invokes the callback
  once for every row it produces, in order, with the number of columns, the values and
  the names of that row, and stops at the first invocation that does not return 0. What
  the callback prints is printed during the call.
\<close>

fun deliver :: "row list \<Rightarrow> string list" where
  "deliver [] = []"
| "deliver (r # rs) =
     (case callback data (int (length r)) (map snd r) (map fst r) of
        Inr (ret, out) \<Rightarrow> (if ret = 0 then out @ deliver rs else out)
      | Inl e \<Rightarrow> [])"

definition call_sqlite3_exec ::
  "'w env \<Rightarrow> sqlite3 \<Rightarrow> string \<Rightarrow> 'w state \<Rightarrow> int \<times> 'w state" where
  "call_sqlite3_exec env db sql s =
     (let ((r, rows, msg), w) = sqlite3_exec env db sql (zErrMsg s) (world s);
          s1 = emit (Sqlite3_exec db sql r) (s\<lparr>world := w\<rparr>)
      in (r, s1\<lparr>zErrMsg := msg, trace := trace s1 @ map Stdout (deliver rows)\<rparr>))"

subsection \<open>Opening a database and executing a statement\<close>

text \<open>The second argument of \<^verbatim>\<open>db_open\<close> is the address of one of the two handles.\<close>

datatype db_ref = Ref_db1 | Ref_db2

fun store :: "db_ref \<Rightarrow> sqlite3 \<Rightarrow> 'w state \<Rightarrow> 'w state" where
  "store Ref_db1 h s = s\<lparr>db1 := h\<rparr>"
| "store Ref_db2 h s = s\<lparr>db2 := h\<rparr>"

fun load :: "db_ref \<Rightarrow> 'w state \<Rightarrow> sqlite3" where
  "load Ref_db1 s = db1 s"
| "load Ref_db2 s = db2 s"

definition call_sqlite3_open ::
  "'w env \<Rightarrow> string \<Rightarrow> db_ref \<Rightarrow> 'w state \<Rightarrow> int \<times> 'w state" where
  "call_sqlite3_open env filename db s =
     (let ((r, h), w) = sqlite3_open env filename (world s)
      in (r, emit (Sqlite3_open filename r h) (store db h (s\<lparr>world := w\<rparr>))))"

definition db_open :: "'w env \<Rightarrow> string \<Rightarrow> db_ref \<Rightarrow> 'w state \<Rightarrow> int \<times> 'w state" where
  "db_open env filename db s =
     (let (r, s1) = call_sqlite3_open env filename db s
      in if r \<noteq> 0 then
           (let (msg, s2) = call_sqlite3_errmsg env (load db s1) s1
            in (r, printf (''Can't open database: '' @ msg @ ''\<newline>'') s2))
         else (r, printf ''Opened database successfully\<newline>'' s1))"

text \<open>
  In \<^verbatim>\<open>db_exec\<close> the status is a local variable; the global \<^verbatim>\<open>rc\<close> is assigned by the
  callers. The difference of the two timestamps is computed on 64-bit integers and
  printed as a signed number.
\<close>

definition db_exec :: "'w env \<Rightarrow> sqlite3 \<Rightarrow> string \<Rightarrow> 'w state \<Rightarrow> int \<times> 'w state" where
  "db_exec env db sql s =
     (let s1 = printf (sql @ ''\<newline>'') s;
          (start, s2) = call_esp_timer_get_time env s1;
          (r, s3) = call_sqlite3_exec env db sql s2;
          s4 = (if r \<noteq> SQLITE_OK then
                  call_sqlite3_free env (zErrMsg s3)
                    (printf (''SQL error: '' @ str_arg (zErrMsg s3) @ ''\<newline>'') s3)
                else printf ''Operation done successfully\<newline>'' s3);
          (t, s5) = call_esp_timer_get_time env s4
      in (r, printf (''Time taken: '' @ dec_int (sint (t - start)) @ ''\<newline>'') s5))"

subsection \<open>The three steps and the main function\<close>

definition close_both :: "'w env \<Rightarrow> 'w state \<Rightarrow> 'w state" where
  "close_both env s =
     (let s1 = call_sqlite3_close env (db1 s) s
      in call_sqlite3_close env (db2 s1) s1)"

definition create_db :: "'w env \<Rightarrow> 'w state \<Rightarrow> 'w state" where
  "create_db env s =
     (let s1 = ESP_LOGI TAG ''Creating table test1'' s;
          (r, s2) = db_exec env (db1 s1) ''CREATE TABLE test1 (id INTEGER, content);'' s1;
          s3 = s2\<lparr>rc := r\<rparr>
      in if rc s3 \<noteq> SQLITE_OK then close_both env s3
         else
           (let s4 = ESP_LOGI TAG ''Creating table test2'' s3;
                (r', s5) = db_exec env (db2 s4) ''CREATE TABLE test2 (id INTEGER, content);'' s4;
                s6 = s5\<lparr>rc := r'\<rparr>
            in if rc s6 \<noteq> SQLITE_OK then close_both env s6
               else ESP_LOGI TAG ''Tables created succesfully'' s6))"

definition insert_data :: "'w env \<Rightarrow> 'w state \<Rightarrow> 'w state" where
  "insert_data env s =
     (let s1 = ESP_LOGI TAG ''Inserting data in table test1'' s;
          (r, s2) = db_exec env (db1 s1)
            ''INSERT INTO test1 VALUES (1, 'Hello, World from test1, ESP-IDF 5.1.1');'' s1;
          s3 = s2\<lparr>rc := r\<rparr>
      in if rc s3 \<noteq> SQLITE_OK then close_both env s3
         else
           (let s4 = ESP_LOGI TAG ''Inserting data in table test2'' s3;
                (r', s5) = db_exec env (db2 s4)
                  ''INSERT INTO test2 VALUES (1, 'Hello, World from test2, ESP-IDF 5.1.1');'' s4;
                s6 = s5\<lparr>rc := r'\<rparr>
            in if rc s6 \<noteq> SQLITE_OK then close_both env s6
               else s6))"

definition select_data :: "'w env \<Rightarrow> 'w state \<Rightarrow> 'w state" where
  "select_data env s =
     (let s1 = ESP_LOGI TAG ''Selecting data from test1'' s;
          (r, s2) = db_exec env (db1 s1) ''SELECT * FROM test1'' s1;
          s3 = s2\<lparr>rc := r\<rparr>
      in if rc s3 \<noteq> SQLITE_OK then close_both env s3
         else
           (let s4 = ESP_LOGI TAG ''Selecting data from test2'' s3;
                (r', s5) = db_exec env (db2 s4) ''SELECT * FROM test2'' s4;
                s6 = s5\<lparr>rc := r'\<rparr>
            in if rc s6 \<noteq> SQLITE_OK then close_both env s6
               else s6))"

definition spiffs_conf :: esp_vfs_spiffs_conf where
  "spiffs_conf = \<lparr>base_path = ''/spiffs'', partition_label = None, max_files = 5,
                   format_if_mount_failed = True\<rparr>"

definition app_main :: "'w env \<Rightarrow> 'w state \<Rightarrow> 'w state" where
  "app_main env s =
     (let s1 = ESP_LOGI TAG ''Initializing SPIFFS'' s;
          (ret, s2) = call_esp_vfs_spiffs_register env spiffs_conf s1
      in if ret \<noteq> ESP_OK then
           (if ret = ESP_FAIL then ESP_LOGE TAG ''Failed to mount or format filesystem'' s2
            else if ret = ESP_ERR_NOT_FOUND then ESP_LOGE TAG ''Failed to find SPIFFS partition'' s2
            else ESP_LOGE TAG (''Failed to initialize SPIFFS ('' @ esp_err_to_name env ret @ '')'') s2)
         else
           (let ((ret', total, used), s3) = call_esp_spiffs_info env None s2;
                s4 = (if ret' \<noteq> ESP_OK then
                        ESP_LOGE TAG (''Failed to get SPIFFS partition information (''
                                       @ esp_err_to_name env ret' @ '')'') s3
                      else
                        ESP_LOGI TAG (''Partition size: total: '' @ dec_int (sint total)
                                       @ '', used: '' @ dec_int (sint used)) s3);
                s5 = call_unlink env ''/spiffs/test1.db'' s4;
                s6 = call_unlink env ''/spiffs/test2.db'' s5;
                s7 = call_sqlite3_initialize env s6;
                s8 = ESP_LOGI TAG ''Opening table test1'' s7;
                (r1, s9) = db_open env ''/spiffs/test1.db'' Ref_db1 s8
            in if r1 \<noteq> 0 then s9
               else
                 (let s10 = ESP_LOGI TAG ''Opening table test2'' s9;
                      (r2, s11) = db_open env ''/spiffs/test2.db'' Ref_db2 s10
                  in if r2 \<noteq> 0 then s11
                     else
                       (let s12 = create_db env s11;
                            s13 = insert_data env s12;
                            s14 = select_data env s13;
                            s15 = call_sqlite3_close env (db1 s14) s14;
                            s16 = call_sqlite3_close env (db2 s15) s15;
                            s17 = call_esp_vfs_spiffs_unregister env None s16
                        in ESP_LOGI TAG ''SPIFFS unmounted'' s17))))"

subsection \<open>The part of the main function after the usage query\<close>

text \<open>
  Lines 258 to 291 of \<^verbatim>\<open>app_main\<close>, from the two \<^verbatim>\<open>unlink\<close> calls to the end, as a
  function of the state in which they start. The lemma \<open>app_main_database_phase\<close>
  below shows that \<open>app_main\<close> is its first part followed by this.
\<close>

definition database_phase :: "'w env \<Rightarrow> 'w state \<Rightarrow> 'w state" where
  "database_phase env s4 =
     (let s5 = call_unlink env ''/spiffs/test1.db'' s4;
          s6 = call_unlink env ''/spiffs/test2.db'' s5;
          s7 = call_sqlite3_initialize env s6;
          s8 = ESP_LOGI TAG ''Opening table test1'' s7;
          (r1, s9) = db_open env ''/spiffs/test1.db'' Ref_db1 s8
      in if r1 \<noteq> 0 then s9
         else
           (let s10 = ESP_LOGI TAG ''Opening table test2'' s9;
                (r2, s11) = db_open env ''/spiffs/test2.db'' Ref_db2 s10
            in if r2 \<noteq> 0 then s11
               else
                 (let s12 = create_db env s11;
                      s13 = insert_data env s12;
                      s14 = select_data env s13;
                      s15 = call_sqlite3_close env (db1 s14) s14;
                      s16 = call_sqlite3_close env (db2 s15) s15;
                      s17 = call_esp_vfs_spiffs_unregister env None s16
                  in ESP_LOGI TAG ''SPIFFS unmounted'' s17)))"

text \<open>
  The stages of a run, each a segment of \<^verbatim>\<open>app_main\<close> written as a function of the
  state in which it starts: the mount (lines 224 to 236), the usage query and its log
  line (lines 250 to 256), the removal of the two files and the first open (lines 259 to
  267), the second open (lines 269 and 270), and the three steps with the final closes
  and the unmount (lines 275 to 291). The lemmas \<open>app_main_stages\<close> and
  \<open>database_phase_stages\<close> below show that the main function is these stages, run
  in this order until one of them fails.
\<close>

definition mount_stage :: "'w env \<Rightarrow> 'w state \<Rightarrow> int \<times> 'w state" where
  "mount_stage env s =
     call_esp_vfs_spiffs_register env spiffs_conf (ESP_LOGI TAG ''Initializing SPIFFS'' s)"

definition mount_failure_log :: "'w env \<Rightarrow> int \<Rightarrow> 'w state \<Rightarrow> 'w state" where
  "mount_failure_log env ret s2 =
     (if ret = ESP_FAIL then ESP_LOGE TAG ''Failed to mount or format filesystem'' s2
      else if ret = ESP_ERR_NOT_FOUND then ESP_LOGE TAG ''Failed to find SPIFFS partition'' s2
      else ESP_LOGE TAG (''Failed to initialize SPIFFS ('' @ esp_err_to_name env ret @ '')'') s2)"

definition usage_log :: "'w env \<Rightarrow> int \<Rightarrow> 32 word \<Rightarrow> 32 word \<Rightarrow> event" where
  "usage_log env ret' tot usd =
     (if ret' \<noteq> ESP_OK then
        Log Error TAG (''Failed to get SPIFFS partition information (''
                        @ esp_err_to_name env ret' @ '')'')
      else
        Log Info TAG (''Partition size: total: '' @ dec_int (sint tot)
                       @ '', used: '' @ dec_int (sint usd)))"

definition usage_stage :: "'w env \<Rightarrow> 'w state \<Rightarrow> 'w state" where
  "usage_stage env s2 =
     (let ((ret', tot, usd), s3) = call_esp_spiffs_info env None s2
      in emit (usage_log env ret' tot usd) s3)"

definition open1_stage :: "'w env \<Rightarrow> 'w state \<Rightarrow> int \<times> 'w state" where
  "open1_stage env s4 =
     db_open env ''/spiffs/test1.db'' Ref_db1
       (ESP_LOGI TAG ''Opening table test1''
         (call_sqlite3_initialize env
           (call_unlink env ''/spiffs/test2.db'' (call_unlink env ''/spiffs/test1.db'' s4))))"

definition open2_stage :: "'w env \<Rightarrow> 'w state \<Rightarrow> int \<times> 'w state" where
  "open2_stage env s9 =
     db_open env ''/spiffs/test2.db'' Ref_db2 (ESP_LOGI TAG ''Opening table test2'' s9)"

definition close_stage :: "'w env \<Rightarrow> 'w state \<Rightarrow> 'w state" where
  "close_stage env s14 =
     ESP_LOGI TAG ''SPIFFS unmounted''
       (call_esp_vfs_spiffs_unregister env None (close_both env s14))"

definition steps_stage :: "'w env \<Rightarrow> 'w state \<Rightarrow> 'w state" where
  "steps_stage env s11 =
     close_stage env (select_data env (insert_data env (create_db env s11)))"

subsection \<open>Reading a trace\<close>

text \<open>Putting events in front of the trace of a state.\<close>

definition shift :: "event list \<Rightarrow> 'w state \<Rightarrow> 'w state" where
  "shift pre s = s\<lparr>trace := pre @ trace s\<rparr>"

text \<open>
  The events that mount, query, remove, initialise, open, execute, close and unmount:
  the library calls of a run without its output, its timestamps and the handling of
  messages.
\<close>

fun is_lifecycle :: "event \<Rightarrow> bool" where
  "is_lifecycle (Stdout _) = False"
| "is_lifecycle (Log _ _ _) = False"
| "is_lifecycle (Sqlite3_errmsg _) = False"
| "is_lifecycle (Sqlite3_free _) = False"
| "is_lifecycle (Esp_timer_get_time _) = False"
| "is_lifecycle _ = True"

definition lifecycle :: "event list \<Rightarrow> event list" where
  "lifecycle tr = filter is_lifecycle tr"

fun is_open :: "event \<Rightarrow> bool" where
  "is_open (Sqlite3_open _ _ _) = True"
| "is_open _ = False"

fun is_open_ok :: "event \<Rightarrow> bool" where
  "is_open_ok (Sqlite3_open _ r _) = (r = 0)"
| "is_open_ok _ = False"

fun is_exec :: "event \<Rightarrow> bool" where
  "is_exec (Sqlite3_exec _ _ _) = True"
| "is_exec _ = False"

fun is_close :: "event \<Rightarrow> bool" where
  "is_close (Sqlite3_close _) = True"
| "is_close _ = False"

fun is_unregister :: "event \<Rightarrow> bool" where
  "is_unregister (Esp_vfs_spiffs_unregister _) = True"
| "is_unregister _ = False"


text \<open>An event that reports a failure of the mount, of an open or of a statement.\<close>

fun failed :: "event \<Rightarrow> bool" where
  "failed (Esp_vfs_spiffs_register _ ret) = (ret \<noteq> ESP_OK)"
| "failed (Sqlite3_open _ r _) = (r \<noteq> 0)"
| "failed (Sqlite3_exec _ _ r) = (r \<noteq> SQLITE_OK)"
| "failed _ = False"

text \<open>
  The lifecycle events of one step (\<^verbatim>\<open>create_db\<close>, \<^verbatim>\<open>insert_data\<close>, \<^verbatim>\<open>select_data\<close>)
  on the handles \<open>h1\<close> and \<open>h2\<close>, with the statements \<open>q1\<close> and \<open>q2\<close> and their
  statuses \<open>ra\<close> and \<open>rb\<close>.
\<close>

definition step_calls ::
  "sqlite3 \<Rightarrow> sqlite3 \<Rightarrow> string \<Rightarrow> string \<Rightarrow> int \<Rightarrow> int \<Rightarrow> event list" where
  "step_calls h1 h2 q1 q2 ra rb =
     Sqlite3_exec h1 q1 ra #
       (if ra \<noteq> SQLITE_OK then [Sqlite3_close h1, Sqlite3_close h2]
        else Sqlite3_exec h2 q2 rb #
               (if rb \<noteq> SQLITE_OK then [Sqlite3_close h1, Sqlite3_close h2] else []))"

text \<open>The line that the callback prints for one column.\<close>

definition row_line :: "string \<times> string option \<Rightarrow> string" where
  "row_line p =
     fst p @ '' = '' @ (case snd p of None \<Rightarrow> ''NULL'' | Some text \<Rightarrow> text) @ ''\<newline>''"

subsection \<open>A simulated filesystem and engine\<close>

text \<open>
  To run the program on concrete inputs: a pair of libraries whose mount and usage query
  return the given statuses, whose open fails (status 14) for the given files, and whose
  engine fails (status 1, with a message) on the given statements, refuses a handle
  that has been closed (status 21, leaving the message pointer as it is) and answers
  the first query with one row holding a NULL. The world is a clock and the handles
  closed so far.
\<close>

record sim =
  clock :: nat
  closed :: "sqlite3 list"

definition sim_env :: "int \<Rightarrow> int \<Rightarrow> string list \<Rightarrow> string list \<Rightarrow> sim env" where
  "sim_env mount_status info_status bad_files bad_sql =
     \<lparr>esp_vfs_spiffs_register = (\<lambda>conf w. (mount_status, w)),
      esp_spiffs_info = (\<lambda>label w. ((info_status, 1000000, 2000), w)),
      esp_err_to_name = (\<lambda>e. ''ESP_ERR_INVALID_STATE''),
      unlink = (\<lambda>path w. w),
      sqlite3_initialize = (\<lambda>w. w),
      sqlite3_open = (\<lambda>file w.
        ((if file \<in> set bad_files then 14 else 0,
          if file = ''/spiffs/test1.db'' then 101 else 102), w)),
      sqlite3_errmsg = (\<lambda>h w. ''unable to open database file''),
      sqlite3_exec = (\<lambda>h sql msg w.
        if h \<in> set (closed w) then ((21, [], msg), w)
        else if sql \<in> set bad_sql
          then ((1, [], Some ''SQL logic error''), w\<lparr>clock := clock w + 250\<rparr>)
        else ((0, if sql = ''SELECT * FROM test1''
                  then [[(''id'', Some ''1''), (''content'', None)]] else [], None),
              w\<lparr>clock := clock w + 250\<rparr>)),
      sqlite3_free = (\<lambda>p w. w),
      sqlite3_close = (\<lambda>h w. w\<lparr>closed := h # closed w\<rparr>),
      esp_vfs_spiffs_unregister = (\<lambda>label w. w),
      esp_timer_get_time = (\<lambda>w. (of_nat (clock w), w\<lparr>clock := clock w + 1\<rparr>))\<rparr>"

definition sim_start :: sim where
  "sim_start = \<lparr>clock = 5000, closed = []\<rparr>"

text \<open>
  The lifecycle events of the database phase and of a whole run, as a function of the
  statuses and handles that the libraries returned.
\<close>

definition db_calls ::
  "int \<Rightarrow> sqlite3 \<Rightarrow> int \<Rightarrow> sqlite3 \<Rightarrow> int \<Rightarrow> int \<Rightarrow> int \<Rightarrow> int \<Rightarrow> int \<Rightarrow> int \<Rightarrow> event list" where
  "db_calls r1 h1 r2 h2 a b c d e f =
     [Unlink ''/spiffs/test1.db'', Unlink ''/spiffs/test2.db'', Sqlite3_initialize,
      Sqlite3_open ''/spiffs/test1.db'' r1 h1] @
     (if r1 \<noteq> 0 then []
      else Sqlite3_open ''/spiffs/test2.db'' r2 h2 #
        (if r2 \<noteq> 0 then []
         else
           step_calls h1 h2 ''CREATE TABLE test1 (id INTEGER, content);''
             ''CREATE TABLE test2 (id INTEGER, content);'' a b @
           step_calls h1 h2
             ''INSERT INTO test1 VALUES (1, 'Hello, World from test1, ESP-IDF 5.1.1');''
             ''INSERT INTO test2 VALUES (1, 'Hello, World from test2, ESP-IDF 5.1.1');'' c d @
           step_calls h1 h2 ''SELECT * FROM test1'' ''SELECT * FROM test2'' e f @
           [Sqlite3_close h1, Sqlite3_close h2, Esp_vfs_spiffs_unregister None]))"

definition run_calls ::
  "int \<Rightarrow> int \<Rightarrow> int \<Rightarrow> sqlite3 \<Rightarrow> int \<Rightarrow> sqlite3 \<Rightarrow> int \<Rightarrow> int \<Rightarrow> int \<Rightarrow> int \<Rightarrow> int \<Rightarrow> int
     \<Rightarrow> event list" where
  "run_calls ret ri r1 h1 r2 h2 a b c d e f =
     Esp_vfs_spiffs_register spiffs_conf ret #
       (if ret \<noteq> ESP_OK then []
        else Esp_spiffs_info None ri # db_calls r1 h1 r2 h2 a b c d e f)"

subsection \<open>Files that exist, and opens that find them\<close>





text \<open>The simulated libraries used below, and the state in which their runs start.\<close>

definition working_env :: "sim env" where
  "working_env = sim_env 0 0 [] []"

definition unmounted_env :: "sim env" where
  "unmounted_env = sim_env 261 0 [] []"

definition no_usage_env :: "sim env" where
  "no_usage_env = sim_env 0 259 [] []"

definition second_open_env :: "sim env" where
  "second_open_env = sim_env 0 0 [''/spiffs/test2.db''] []"

definition failing_env :: "sim env" where
  "failing_env = sim_env 0 0 [] [''CREATE TABLE test1 (id INTEGER, content);'']"

definition opened :: "sim state" where
  "opened = \<lparr>zErrMsg = None, db1 = 101, db2 = 102, rc = 0, world = sim_start, trace = []\<rparr>"

section \<open>Properties\<close>

subsection \<open>The row callback\<close>

lemma callback_loop_in_range:
  assumes "length argv = length azColName" "0 \<le> i" "i \<le> int (length azColName)"
  shows "callback_loop i (int (length azColName)) argv azColName out =
         Inr (out @ map row_line (drop (nat i) (zip azColName argv)))"
  using assms
proof (induction "nat (int (length azColName) - i)" arbitrary: i out)
  case 0
  then have "\<not> i < int (length azColName)" by simp
  moreover have "drop (nat i) (zip azColName argv) = []" using 0 by simp
  ultimately show ?case by (subst callback_loop.simps) simp
next
  case (Suc k)
  then have lt: "i < int (length azColName)" by simp
  then have n: "nat i < length azColName" using Suc.prems by simp
  have names: "at_index azColName i = Some (azColName ! nat i)"
    using lt Suc.prems by (simp add: at_index_def)
  have vals: "at_index argv i = Some (argv ! nat i)"
    using lt Suc.prems by (simp add: at_index_def)
  have d: "drop (nat i) (zip azColName argv) =
        (azColName ! nat i, argv ! nat i) # drop (nat (i + 1)) (zip azColName argv)"
  proof -
    have "nat i < length (zip azColName argv)" using n Suc.prems by simp
    then have "drop (nat i) (zip azColName argv) =
          zip azColName argv ! nat i # drop (Suc (nat i)) (zip azColName argv)"
      by (rule Cons_nth_drop_Suc [symmetric])
    then show ?thesis using n Suc.prems by (simp add: nat_add_distrib)
  qed
  have k: "k = nat (int (length azColName) - (i + 1))" using Suc.hyps(2) by simp
  have ih: "\<And>out'. callback_loop (i + 1) (int (length azColName)) argv azColName out' =
      Inr (out' @ map row_line (drop (nat (i + 1)) (zip azColName argv)))"
    using Suc.hyps(1) [OF k Suc.prems(1)] lt Suc.prems(2) by simp
  show ?case
    by (subst callback_loop.simps) (simp add: lt names vals ih d row_line_def)
qed

text \<open>
  Claim C3. For any label and any arrays of column names and column values of the same
  length, the callback prints the label once (followed by a colon), then for each column
  in order one line with the name, \<open>=\<close> and the value, where an absent value is
  rendered as the text NULL and never as the empty text, then an empty line; it returns 0.
  The callback is a function of its arguments only: it neither reads nor changes the
  state of the run.
\<close>

theorem callback_prints_row:
  assumes "length argv = length azColName"
  shows "callback label (int (length azColName)) argv azColName =
           Inr (0, [label @ '': \<newline>''] @ map row_line (zip azColName argv) @ [''\<newline>''])
         \<and> (\<forall>name. row_line (name, None) = name @ '' = NULL\<newline>'')
         \<and> (\<forall>name. row_line (name, Some []) = name @ '' = \<newline>'')"
  using callback_loop_in_range [OF assms, of 0 "[label @ '': \<newline>'']"]
  by (simp add: callback_def row_line_def)

theorem callback_prints_row_witness:
  "length [Some ''1'', None, Some []] = length [''id'', ''content'', ''note'']
   \<and> callback ''Callback function called'' 3 [Some ''1'', None, Some []]
         [''id'', ''content'', ''note''] =
       Inr (0, [''Callback function called: \<newline>'', ''id = 1\<newline>'', ''content = NULL\<newline>'',
                ''note = \<newline>'', ''\<newline>''])"
  using callback_prints_row [of "[Some ''1'', None, Some []]" "[''id'', ''content'', ''note'']"
      "''Callback function called''"]
  by (simp add: row_line_def)

subsection \<open>The trace is only written\<close>

text \<open>
  No function of the program reads the trace: running it on a state with more events in
  front gives the same result with those events in front.
\<close>

lemma shift_simps [simp]:
  "zErrMsg (shift pre s) = zErrMsg s" "db1 (shift pre s) = db1 s" "db2 (shift pre s) = db2 s"
  "rc (shift pre s) = rc s" "world (shift pre s) = world s" "trace (shift pre s) = pre @ trace s"
  by (simp_all add: shift_def)

lemma shift_rc [simp]: "(shift pre s)\<lparr>rc := r\<rparr> = shift pre (s\<lparr>rc := r\<rparr>)"
  by (simp add: shift_def)

lemma shift_Nil [simp]: "shift [] s = s"
  by (simp add: shift_def)

lemma shift_shift [simp]: "shift p (shift q s) = shift (p @ q) s"
  by (simp add: shift_def)

lemma emit_shift [simp]: "emit e (shift pre s) = shift pre (emit e s)"
  by (simp add: emit_def shift_def)

lemma printf_shift [simp]: "printf t (shift pre s) = shift pre (printf t s)"
  by (simp add: printf_def)

lemma ESP_LOGI_shift [simp]: "ESP_LOGI tag t (shift pre s) = shift pre (ESP_LOGI tag t s)"
  by (simp add: ESP_LOGI_def)

lemma call_timer_shift [simp]:
  "call_esp_timer_get_time env (shift pre s) = apsnd (shift pre) (call_esp_timer_get_time env s)"
  by (simp add: call_esp_timer_get_time_def emit_def shift_def split: prod.splits)

lemma call_exec_shift [simp]:
  "call_sqlite3_exec env db sql (shift pre s) = apsnd (shift pre) (call_sqlite3_exec env db sql s)"
  by (simp add: call_sqlite3_exec_def emit_def shift_def split: prod.splits)

lemma call_free_shift [simp]:
  "call_sqlite3_free env p (shift pre s) = shift pre (call_sqlite3_free env p s)"
  by (simp add: call_sqlite3_free_def emit_def shift_def)

lemma call_close_shift [simp]:
  "call_sqlite3_close env p (shift pre s) = shift pre (call_sqlite3_close env p s)"
  by (simp add: call_sqlite3_close_def emit_def shift_def)

lemma call_unlink_shift [simp]:
  "call_unlink env p (shift pre s) = shift pre (call_unlink env p s)"
  by (simp add: call_unlink_def emit_def shift_def)

lemma call_initialize_shift [simp]:
  "call_sqlite3_initialize env (shift pre s) = shift pre (call_sqlite3_initialize env s)"
  by (simp add: call_sqlite3_initialize_def emit_def shift_def)

lemma call_unregister_shift [simp]:
  "call_esp_vfs_spiffs_unregister env l (shift pre s) =
   shift pre (call_esp_vfs_spiffs_unregister env l s)"
  by (simp add: call_esp_vfs_spiffs_unregister_def emit_def shift_def)

lemma call_open_shift [simp]:
  "call_sqlite3_open env f r (shift pre s) = apsnd (shift pre) (call_sqlite3_open env f r s)"
  by (cases r) (simp_all add: call_sqlite3_open_def emit_def shift_def split: prod.splits)

lemma call_errmsg_shift [simp]:
  "call_sqlite3_errmsg env h (shift pre s) = apsnd (shift pre) (call_sqlite3_errmsg env h s)"
  by (simp add: call_sqlite3_errmsg_def emit_def shift_def)

lemma load_shift [simp]: "load r (shift pre s) = load r s"
  by (cases r) simp_all

lemma db_open_shift [simp]:
  "db_open env f r (shift pre s) = apsnd (shift pre) (db_open env f r s)"
  by (simp add: db_open_def Let_def case_prod_beta)

lemma db_exec_shift [simp]:
  "db_exec env db sql (shift pre s) = apsnd (shift pre) (db_exec env db sql s)"
  by (simp add: db_exec_def Let_def case_prod_beta)

lemma close_both_shift [simp]:
  "close_both env (shift pre s) = shift pre (close_both env s)"
  by (simp add: close_both_def Let_def)

lemma create_db_shift [simp]:
  "create_db env (shift pre s) = shift pre (create_db env s)"
  by (simp add: create_db_def Let_def case_prod_beta)

lemma insert_data_shift [simp]:
  "insert_data env (shift pre s) = shift pre (insert_data env s)"
  by (simp add: insert_data_def Let_def case_prod_beta)

lemma select_data_shift [simp]:
  "select_data env (shift pre s) = shift pre (select_data env s)"
  by (simp add: select_data_def Let_def case_prod_beta)

lemma open1_stage_shift [simp]:
  "open1_stage env (shift pre s) = apsnd (shift pre) (open1_stage env s)"
  by (simp add: open1_stage_def)

lemma open2_stage_shift [simp]:
  "open2_stage env (shift pre s) = apsnd (shift pre) (open2_stage env s)"
  by (simp add: open2_stage_def)

lemma steps_stage_shift [simp]:
  "steps_stage env (shift pre s) = shift pre (steps_stage env s)"
  by (simp add: steps_stage_def close_stage_def)

subsection \<open>The main function, stage by stage\<close>

lemma app_main_stages:
  "app_main env s =
     (if fst (mount_stage env s) \<noteq> ESP_OK
      then mount_failure_log env (fst (mount_stage env s)) (snd (mount_stage env s))
      else database_phase env (usage_stage env (snd (mount_stage env s))))"
proof (cases "mount_stage env s")
  case m: (Pair ret s2)
  show ?thesis
  proof (cases "call_esp_spiffs_info env None s2")
    case u: (Pair info s3)
    obtain ret' tot usd where info: "info = (ret', tot, usd)"
      by (cases info) auto
    have "app_main env s =
        (if ret \<noteq> ESP_OK then mount_failure_log env ret s2
         else database_phase env (emit (usage_log env ret' tot usd) s3))"
      using m u info
      unfolding app_main_def mount_stage_def mount_failure_log_def usage_log_def
        database_phase_def ESP_LOGI_def ESP_LOGE_def
      by (simp add: Let_def)
    then show ?thesis
      using m u info by (simp add: usage_stage_def)
  qed
qed

lemma database_phase_stages:
  "database_phase env s4 =
     (if fst (open1_stage env s4) \<noteq> 0 then snd (open1_stage env s4)
      else if fst (open2_stage env (snd (open1_stage env s4))) \<noteq> 0
        then snd (open2_stage env (snd (open1_stage env s4)))
        else steps_stage env (snd (open2_stage env (snd (open1_stage env s4)))))"
proof (cases "open1_stage env s4")
  case o1: (Pair r1 s9)
  show ?thesis
  proof (cases "open2_stage env s9")
    case o2: (Pair r2 s11)
    show ?thesis
      using o1 o2
      unfolding database_phase_def open1_stage_def open2_stage_def steps_stage_def
        close_stage_def close_both_def
      by (simp add: Let_def)
  qed
qed

lemma database_phase_shift:
  "database_phase env (shift pre s) = shift pre (database_phase env s)"
  by (simp add: database_phase_stages)

subsection \<open>What each function adds to the trace\<close>

lemma lifecycle_Nil [simp]: "lifecycle [] = []"
  by (simp add: lifecycle_def)

lemma lifecycle_Cons [simp]:
  "lifecycle (e # es) = (if is_lifecycle e then e # lifecycle es else lifecycle es)"
  by (simp add: lifecycle_def)

lemma lifecycle_append [simp]: "lifecycle (xs @ ys) = lifecycle xs @ lifecycle ys"
  by (simp add: lifecycle_def)

lemma lifecycle_Stdout [simp]: "lifecycle (map Stdout texts) = []"
  by (induction texts) simp_all

lemma emit_fields [simp]:
  "trace (emit e s) = trace s @ [e]" "world (emit e s) = world s"
  "db1 (emit e s) = db1 s" "db2 (emit e s) = db2 s"
  "zErrMsg (emit e s) = zErrMsg s" "rc (emit e s) = rc s"
  by (simp_all add: emit_def)

lemma call_sqlite3_close_fields [simp]:
  "trace (call_sqlite3_close env h s) = trace s @ [Sqlite3_close h]"
  "db1 (call_sqlite3_close env h s) = db1 s" "db2 (call_sqlite3_close env h s) = db2 s"
  by (simp_all add: call_sqlite3_close_def)

lemma close_both_fields [simp]:
  "trace (close_both env s) = trace s @ [Sqlite3_close (db1 s), Sqlite3_close (db2 s)]"
  "db1 (close_both env s) = db1 s" "db2 (close_both env s) = db2 s"
  by (simp_all add: close_both_def Let_def)

text \<open>
  One execution of a statement, given what the clock and the engine return: the status
  returned, and the state and the events that result.
\<close>

lemma db_exec_eq:
  assumes "esp_timer_get_time env (world s) = (t0, w1)"
    and "sqlite3_exec env db sql (zErrMsg s) w1 = ((r, rows, msg), w2)"
    and "esp_timer_get_time env (if r \<noteq> SQLITE_OK then sqlite3_free env msg w2 else w2) = (t1, w3)"
  shows "db_exec env db sql s =
     (r, s\<lparr>zErrMsg := msg, world := w3,
            trace := trace s @
              [Stdout (sql @ ''\<newline>''), Esp_timer_get_time t0, Sqlite3_exec db sql r] @
              map Stdout (deliver rows) @
              (if r \<noteq> SQLITE_OK
               then [Stdout (''SQL error: '' @ str_arg msg @ ''\<newline>''), Sqlite3_free msg]
               else [Stdout ''Operation done successfully\<newline>'']) @
              [Esp_timer_get_time t1,
               Stdout (''Time taken: '' @ dec_int (sint (t1 - t0)) @ ''\<newline>'')]\<rparr>)"
  using assms
  unfolding db_exec_def call_esp_timer_get_time_def call_sqlite3_exec_def call_sqlite3_free_def
    printf_def emit_def
  by (cases "r = SQLITE_OK") (simp_all add: Let_def)

lemma db_exec_fields:
  "lifecycle (trace (snd (db_exec env db sql s))) =
     lifecycle (trace s) @ [Sqlite3_exec db sql (fst (db_exec env db sql s))]"
  "db1 (snd (db_exec env db sql s)) = db1 s" "db2 (snd (db_exec env db sql s)) = db2 s"
proof -
  obtain t0 w1 where a: "esp_timer_get_time env (world s) = (t0, w1)"
    by (cases "esp_timer_get_time env (world s)") auto
  obtain r rows msg w2 where b: "sqlite3_exec env db sql (zErrMsg s) w1 = ((r, rows, msg), w2)"
    by (cases "sqlite3_exec env db sql (zErrMsg s) w1") auto
  obtain t1 w3 where
    c: "esp_timer_get_time env (if r \<noteq> SQLITE_OK then sqlite3_free env msg w2 else w2) = (t1, w3)"
    by (cases "esp_timer_get_time env (if r \<noteq> SQLITE_OK then sqlite3_free env msg w2 else w2)") auto
  note e = db_exec_eq [OF a b c]
  show "lifecycle (trace (snd (db_exec env db sql s))) =
     lifecycle (trace s) @ [Sqlite3_exec db sql (fst (db_exec env db sql s))]"
    by (simp add: e)
  show "db1 (snd (db_exec env db sql s)) = db1 s" "db2 (snd (db_exec env db sql s)) = db2 s"
    by (simp_all add: e)
qed

lemma db_open_eq:
  assumes "sqlite3_open env file (world s) = ((r, h), w)"
  shows "db_open env file ref s =
     (r, (store ref h s)\<lparr>world := w,
            trace := trace s @ Sqlite3_open file r h #
              (if r \<noteq> 0
               then [Sqlite3_errmsg h, Stdout (''Can't open database: '' @ sqlite3_errmsg env h w @ ''\<newline>'')]
               else [Stdout ''Opened database successfully\<newline>''])\<rparr>)"
  using assms
  unfolding db_open_def call_sqlite3_open_def call_sqlite3_errmsg_def printf_def emit_def
  by (cases ref) (simp_all add: Let_def)

lemma db_open_fields:
  "lifecycle (trace (snd (db_open env file ref s))) =
     lifecycle (trace s) @
       [Sqlite3_open file (fst (db_open env file ref s)) (load ref (snd (db_open env file ref s)))]"
  "db1 (snd (db_open env file Ref_db2 s)) = db1 s"
proof -
  obtain r h w where a: "sqlite3_open env file (world s) = ((r, h), w)"
    by (cases "sqlite3_open env file (world s)") auto
  show "lifecycle (trace (snd (db_open env file ref s))) =
     lifecycle (trace s) @
       [Sqlite3_open file (fst (db_open env file ref s)) (load ref (snd (db_open env file ref s)))]"
    by (cases ref) (simp_all add: db_open_eq [OF a])
  show "db1 (snd (db_open env file Ref_db2 s)) = db1 s"
    by (simp add: db_open_eq [OF a])
qed

text \<open>The common shape of the three steps.\<close>

lemma step_shape:
  fixes s :: "'w state"
  assumes shape: "f s =
     (let s1 = ESP_LOGI TAG log1 s;
          (r, s2) = db_exec env (db1 s1) q1 s1;
          s3 = s2\<lparr>rc := r\<rparr>
      in if rc s3 \<noteq> SQLITE_OK then close_both env s3
         else
           (let s4 = ESP_LOGI TAG log2 s3;
                (r', s5) = db_exec env (db2 s4) q2 s4;
                s6 = s5\<lparr>rc := r'\<rparr>
            in if rc s6 \<noteq> SQLITE_OK then close_both env s6
               else last_log s6))"
    and last_log: "\<And>t. lifecycle (trace (last_log t)) = lifecycle (trace t)
                     \<and> db1 (last_log t) = db1 t \<and> db2 (last_log t) = db2 t"
  shows "\<exists>ra rb. lifecycle (trace (f s)) = lifecycle (trace s) @ step_calls (db1 s) (db2 s) q1 q2 ra rb
           \<and> db1 (f s) = db1 s \<and> db2 (f s) = db2 s"
proof -
  define s1 where "s1 = ESP_LOGI TAG log1 s"
  obtain r s2 where e1: "db_exec env (db1 s1) q1 s1 = (r, s2)"
    by (cases "db_exec env (db1 s1) q1 s1") auto
  have s1: "lifecycle (trace s1) = lifecycle (trace s)" "db1 s1 = db1 s" "db2 s1 = db2 s"
    by (simp_all add: s1_def ESP_LOGI_def)
  have s2: "lifecycle (trace s2) = lifecycle (trace s) @ [Sqlite3_exec (db1 s) q1 r]"
    "db1 s2 = db1 s" "db2 s2 = db2 s"
    using db_exec_fields [of env "db1 s1" q1 s1] e1 s1 by simp_all
  show ?thesis
  proof (cases "r \<noteq> SQLITE_OK")
    case True
    then have "f s = close_both env (s2\<lparr>rc := r\<rparr>)"
      using e1 unfolding shape s1_def [symmetric] by (simp add: Let_def)
    then have "lifecycle (trace (f s)) = lifecycle (trace s) @ step_calls (db1 s) (db2 s) q1 q2 r 0
        \<and> db1 (f s) = db1 s \<and> db2 (f s) = db2 s"
      using True s2 by (simp add: step_calls_def)
    then show ?thesis by blast
  next
    case False
    define s4 where "s4 = ESP_LOGI TAG log2 (s2\<lparr>rc := r\<rparr>)"
    obtain r' s5 where e2: "db_exec env (db2 s4) q2 s4 = (r', s5)"
      by (cases "db_exec env (db2 s4) q2 s4") auto
    have s4: "lifecycle (trace s4) = lifecycle (trace s2)" "db1 s4 = db1 s" "db2 s4 = db2 s"
      using s2 by (simp_all add: s4_def ESP_LOGI_def)
    have s5: "lifecycle (trace s5) =
        lifecycle (trace s) @ [Sqlite3_exec (db1 s) q1 r, Sqlite3_exec (db2 s) q2 r']"
      "db1 s5 = db1 s" "db2 s5 = db2 s"
      using db_exec_fields [of env "db2 s4" q2 s4] e2 s4 s2 by simp_all
    have "f s = (let s4 = ESP_LOGI TAG log2 (s2\<lparr>rc := r\<rparr>);
                (r', s5) = db_exec env (db2 s4) q2 s4;
                s6 = s5\<lparr>rc := r'\<rparr>
            in if rc s6 \<noteq> SQLITE_OK then close_both env s6
               else last_log s6)"
      using e1 False unfolding shape s1_def [symmetric] by (simp add: Let_def)
    then have fs: "f s = (if r' \<noteq> SQLITE_OK then close_both env (s5\<lparr>rc := r'\<rparr>)
                     else last_log (s5\<lparr>rc := r'\<rparr>))"
      using e2 unfolding s4_def [symmetric] by (simp add: Let_def)
    have "lifecycle (trace (f s)) = lifecycle (trace s) @ step_calls (db1 s) (db2 s) q1 q2 r r'
        \<and> db1 (f s) = db1 s \<and> db2 (f s) = db2 s"
      using False s5 last_log [of "s5\<lparr>rc := r'\<rparr>"]
      by (cases "r' = SQLITE_OK") (simp_all add: fs step_calls_def)
    then show ?thesis by blast
  qed
qed

lemma create_db_calls:
  "\<exists>ra rb. lifecycle (trace (create_db env s)) =
       lifecycle (trace s) @ step_calls (db1 s) (db2 s)
         ''CREATE TABLE test1 (id INTEGER, content);''
         ''CREATE TABLE test2 (id INTEGER, content);'' ra rb
     \<and> db1 (create_db env s) = db1 s \<and> db2 (create_db env s) = db2 s"
proof (rule step_shape [where last_log = "ESP_LOGI TAG ''Tables created succesfully''"])
  show "\<And>t :: 'a state. lifecycle (trace (ESP_LOGI TAG ''Tables created succesfully'' t)) =
      lifecycle (trace t) \<and> db1 (ESP_LOGI TAG ''Tables created succesfully'' t) = db1 t
      \<and> db2 (ESP_LOGI TAG ''Tables created succesfully'' t) = db2 t"
    by (simp add: ESP_LOGI_def)
qed (rule create_db_def)

lemma insert_data_calls:
  "\<exists>ra rb. lifecycle (trace (insert_data env s)) =
       lifecycle (trace s) @ step_calls (db1 s) (db2 s)
         ''INSERT INTO test1 VALUES (1, 'Hello, World from test1, ESP-IDF 5.1.1');''
         ''INSERT INTO test2 VALUES (1, 'Hello, World from test2, ESP-IDF 5.1.1');'' ra rb
     \<and> db1 (insert_data env s) = db1 s \<and> db2 (insert_data env s) = db2 s"
proof (rule step_shape [where last_log = "\<lambda>t. t"])
  show "\<And>t :: 'a state. lifecycle (trace t) = lifecycle (trace t) \<and> db1 t = db1 t \<and> db2 t = db2 t"
    by simp
qed (rule insert_data_def)

lemma select_data_calls:
  "\<exists>ra rb. lifecycle (trace (select_data env s)) =
       lifecycle (trace s) @ step_calls (db1 s) (db2 s)
         ''SELECT * FROM test1'' ''SELECT * FROM test2'' ra rb
     \<and> db1 (select_data env s) = db1 s \<and> db2 (select_data env s) = db2 s"
proof (rule step_shape [where last_log = "\<lambda>t. t"])
  show "\<And>t :: 'a state. lifecycle (trace t) = lifecycle (trace t) \<and> db1 t = db1 t \<and> db2 t = db2 t"
    by simp
qed (rule select_data_def)

lemma open1_stage_calls:
  "lifecycle (trace (snd (open1_stage env s))) =
     lifecycle (trace s) @
       [Unlink ''/spiffs/test1.db'', Unlink ''/spiffs/test2.db'', Sqlite3_initialize,
        Sqlite3_open ''/spiffs/test1.db'' (fst (open1_stage env s)) (db1 (snd (open1_stage env s)))]"
  unfolding open1_stage_def
  by (simp add: db_open_fields(1) call_unlink_def call_sqlite3_initialize_def ESP_LOGI_def)

lemma open2_stage_calls:
  "lifecycle (trace (snd (open2_stage env s))) =
     lifecycle (trace s) @
       [Sqlite3_open ''/spiffs/test2.db'' (fst (open2_stage env s)) (db2 (snd (open2_stage env s)))]"
  "db1 (snd (open2_stage env s)) = db1 s"
  unfolding open2_stage_def
  by (simp_all add: db_open_fields ESP_LOGI_def)

lemma close_stage_calls:
  "lifecycle (trace (close_stage env s)) =
     lifecycle (trace s) @
       [Sqlite3_close (db1 s), Sqlite3_close (db2 s), Esp_vfs_spiffs_unregister None]"
  by (simp add: close_stage_def ESP_LOGI_def call_esp_vfs_spiffs_unregister_def)

lemma steps_stage_calls:
  "\<exists>a b c d e f. lifecycle (trace (steps_stage env s)) =
     lifecycle (trace s) @
       step_calls (db1 s) (db2 s) ''CREATE TABLE test1 (id INTEGER, content);''
         ''CREATE TABLE test2 (id INTEGER, content);'' a b @
       step_calls (db1 s) (db2 s)
         ''INSERT INTO test1 VALUES (1, 'Hello, World from test1, ESP-IDF 5.1.1');''
         ''INSERT INTO test2 VALUES (1, 'Hello, World from test2, ESP-IDF 5.1.1');'' c d @
       step_calls (db1 s) (db2 s) ''SELECT * FROM test1'' ''SELECT * FROM test2'' e f @
       [Sqlite3_close (db1 s), Sqlite3_close (db2 s), Esp_vfs_spiffs_unregister None]"
proof -
  obtain a b where 1: "lifecycle (trace (create_db env s)) =
       lifecycle (trace s) @ step_calls (db1 s) (db2 s)
         ''CREATE TABLE test1 (id INTEGER, content);''
         ''CREATE TABLE test2 (id INTEGER, content);'' a b"
    "db1 (create_db env s) = db1 s" "db2 (create_db env s) = db2 s"
    using create_db_calls [of env s] by blast
  obtain c d where 2: "lifecycle (trace (insert_data env (create_db env s))) =
       lifecycle (trace (create_db env s)) @ step_calls (db1 s) (db2 s)
         ''INSERT INTO test1 VALUES (1, 'Hello, World from test1, ESP-IDF 5.1.1');''
         ''INSERT INTO test2 VALUES (1, 'Hello, World from test2, ESP-IDF 5.1.1');'' c d"
    "db1 (insert_data env (create_db env s)) = db1 s"
    "db2 (insert_data env (create_db env s)) = db2 s"
    using insert_data_calls [of env "create_db env s"] 1 by auto
  obtain e f where 3: "lifecycle (trace (select_data env (insert_data env (create_db env s)))) =
       lifecycle (trace (insert_data env (create_db env s))) @ step_calls (db1 s) (db2 s)
         ''SELECT * FROM test1'' ''SELECT * FROM test2'' e f"
    "db1 (select_data env (insert_data env (create_db env s))) = db1 s"
    "db2 (select_data env (insert_data env (create_db env s))) = db2 s"
    using select_data_calls [of env "insert_data env (create_db env s)"] 2 by auto
  have "lifecycle (trace (steps_stage env s)) =
     lifecycle (trace s) @
       step_calls (db1 s) (db2 s) ''CREATE TABLE test1 (id INTEGER, content);''
         ''CREATE TABLE test2 (id INTEGER, content);'' a b @
       step_calls (db1 s) (db2 s)
         ''INSERT INTO test1 VALUES (1, 'Hello, World from test1, ESP-IDF 5.1.1');''
         ''INSERT INTO test2 VALUES (1, 'Hello, World from test2, ESP-IDF 5.1.1');'' c d @
       step_calls (db1 s) (db2 s) ''SELECT * FROM test1'' ''SELECT * FROM test2'' e f @
       [Sqlite3_close (db1 s), Sqlite3_close (db2 s), Esp_vfs_spiffs_unregister None]"
    unfolding steps_stage_def close_stage_calls 3 2 1 by simp
  then show ?thesis by blast
qed

lemma database_phase_calls:
  "\<exists>r1 h1 r2 h2 a b c d e f.
     lifecycle (trace (database_phase env s)) =
       lifecycle (trace s) @ db_calls r1 h1 r2 h2 a b c d e f"
proof -
  define o1 where "o1 = open1_stage env s"
  define o2 where "o2 = open2_stage env (snd o1)"
  note c1 = open1_stage_calls [of env s, folded o1_def]
  note c2 = open2_stage_calls [of env "snd o1", folded o2_def]
  show ?thesis
  proof (cases "fst o1 \<noteq> 0")
    case True
    then have "lifecycle (trace (database_phase env s)) =
        lifecycle (trace s) @ db_calls (fst o1) (db1 (snd o1)) 0 0 0 0 0 0 0 0"
      by (simp add: database_phase_stages o1_def [symmetric] c1 db_calls_def)
    then show ?thesis by blast
  next
    case o1_ok: False
    show ?thesis
    proof (cases "fst o2 \<noteq> 0")
      case True
      then have "lifecycle (trace (database_phase env s)) =
          lifecycle (trace s) @ db_calls (fst o1) (db1 (snd o1)) (fst o2) (db2 (snd o2)) 0 0 0 0 0 0"
        using o1_ok
        by (simp add: database_phase_stages o1_def [symmetric] o2_def [symmetric] c1 c2 db_calls_def)
      then show ?thesis by blast
    next
      case o2_ok: False
      obtain a b c d e f where "lifecycle (trace (steps_stage env (snd o2))) =
         lifecycle (trace (snd o2)) @
           step_calls (db1 (snd o2)) (db2 (snd o2)) ''CREATE TABLE test1 (id INTEGER, content);''
             ''CREATE TABLE test2 (id INTEGER, content);'' a b @
           step_calls (db1 (snd o2)) (db2 (snd o2))
             ''INSERT INTO test1 VALUES (1, 'Hello, World from test1, ESP-IDF 5.1.1');''
             ''INSERT INTO test2 VALUES (1, 'Hello, World from test2, ESP-IDF 5.1.1');'' c d @
           step_calls (db1 (snd o2)) (db2 (snd o2)) ''SELECT * FROM test1'' ''SELECT * FROM test2'' e f @
           [Sqlite3_close (db1 (snd o2)), Sqlite3_close (db2 (snd o2)), Esp_vfs_spiffs_unregister None]"
        using steps_stage_calls [of env "snd o2"] by blast
      then have "lifecycle (trace (database_phase env s)) =
          lifecycle (trace s) @ db_calls (fst o1) (db1 (snd o1)) (fst o2) (db2 (snd o2)) a b c d e f"
        using o1_ok o2_ok
        by (simp add: database_phase_stages o1_def [symmetric] o2_def [symmetric] c1 c2 db_calls_def)
      then show ?thesis by blast
    qed
  qed
qed

lemma mount_stage_eq:
  assumes "esp_vfs_spiffs_register env spiffs_conf (world s) = (ret, w)"
  shows "mount_stage env s =
     (ret, s\<lparr>world := w,
              trace := trace s @ [Log Info TAG ''Initializing SPIFFS'',
                                  Esp_vfs_spiffs_register spiffs_conf ret]\<rparr>)"
  using assms
  by (simp add: mount_stage_def call_esp_vfs_spiffs_register_def ESP_LOGI_def emit_def)

lemma mount_failure_log_trace:
  "trace (mount_failure_log env ret s) =
     trace s @ [Log Error TAG
       (if ret = ESP_FAIL then ''Failed to mount or format filesystem''
        else if ret = ESP_ERR_NOT_FOUND then ''Failed to find SPIFFS partition''
        else ''Failed to initialize SPIFFS ('' @ esp_err_to_name env ret @ '')'')]"
  "world (mount_failure_log env ret s) = world s"
  by (simp_all add: mount_failure_log_def ESP_LOGE_def)

lemma usage_stage_eq:
  assumes "esp_spiffs_info env None (world s) = ((ret', tot, usd), w)"
  shows "usage_stage env s =
     s\<lparr>world := w,
        trace := trace s @ [Esp_spiffs_info None ret', usage_log env ret' tot usd]\<rparr>"
  using assms
  by (simp add: usage_stage_def call_esp_spiffs_info_def emit_def)

lemma is_lifecycle_usage_log [simp]: "\<not> is_lifecycle (usage_log env ret' tot usd)"
  by (simp add: usage_log_def)

lemma app_main_calls:
  "\<exists>ri r1 h1 r2 h2 a b c d e f.
     lifecycle (trace (app_main env s)) =
       lifecycle (trace s) @
         run_calls (fst (esp_vfs_spiffs_register env spiffs_conf (world s)))
           ri r1 h1 r2 h2 a b c d e f"
proof -
  obtain ret w where m: "esp_vfs_spiffs_register env spiffs_conf (world s) = (ret, w)"
    by (cases "esp_vfs_spiffs_register env spiffs_conf (world s)") auto
  note ms = mount_stage_eq [OF m]
  show ?thesis
  proof (cases "ret \<noteq> ESP_OK")
    case True
    then have "lifecycle (trace (app_main env s)) =
        lifecycle (trace s) @ run_calls ret 0 0 0 0 0 0 0 0 0 0 0"
      by (simp add: app_main_stages ms mount_failure_log_trace run_calls_def)
    then show ?thesis unfolding m fst_conv by blast
  next
    case False
    define s2 where "s2 = snd (mount_stage env s)"
    obtain ri tot usd w' where u: "esp_spiffs_info env None (world s2) = ((ri, tot, usd), w')"
      by (cases "esp_spiffs_info env None (world s2)") auto
    note us = usage_stage_eq [OF u]
    obtain r1 h1 r2 h2 a b c d e f where
      "lifecycle (trace (database_phase env (usage_stage env s2))) =
         lifecycle (trace (usage_stage env s2)) @ db_calls r1 h1 r2 h2 a b c d e f"
      using database_phase_calls [of env "usage_stage env s2"] by blast
    then have "lifecycle (trace (app_main env s)) =
        lifecycle (trace s) @ run_calls ret ri r1 h1 r2 h2 a b c d e f"
      using False
      by (simp add: app_main_stages s2_def [symmetric] ms [THEN arg_cong [where f = fst]]
          us run_calls_def)
        (simp add: s2_def ms)
    then show ?thesis unfolding m fst_conv by blast
  qed
qed

subsection \<open>Executing a statement\<close>

text \<open>
  Claim C5. Whatever the clock and the engine return, \<^verbatim>\<open>db_exec\<close> returns the status
  of the engine unchanged (so the success code on success). When that status is not the
  success code, it prints the message that the engine left in the message pointer, right
  after the output of the call, then frees that message; the world it leaves is the one
  left by that free and the second reading of the clock. On success it frees nothing.
\<close>

theorem db_exec_reports_failure:
  assumes "esp_timer_get_time env (world s) = (t0, w1)"
    and "sqlite3_exec env db sql (zErrMsg s) w1 = ((r, rows, msg), w2)"
  shows "fst (db_exec env db sql s) = r
     \<and> (r \<noteq> SQLITE_OK \<longrightarrow>
          (\<exists>post. trace (snd (db_exec env db sql s)) =
             trace s @ [Stdout (sql @ ''\<newline>''), Esp_timer_get_time t0, Sqlite3_exec db sql r] @
             map Stdout (deliver rows) @
             [Stdout (''SQL error: '' @ str_arg msg @ ''\<newline>''), Sqlite3_free msg] @ post)
          \<and> world (snd (db_exec env db sql s)) =
              snd (esp_timer_get_time env (sqlite3_free env msg w2)))
     \<and> (r = SQLITE_OK \<longrightarrow>
          world (snd (db_exec env db sql s)) = snd (esp_timer_get_time env w2))"
proof -
  obtain t1 w3 where
    c: "esp_timer_get_time env (if r \<noteq> SQLITE_OK then sqlite3_free env msg w2 else w2) = (t1, w3)"
    by (cases "esp_timer_get_time env (if r \<noteq> SQLITE_OK then sqlite3_free env msg w2 else w2)") auto
  note e = db_exec_eq [OF assms c]
  have "fst (db_exec env db sql s) = r"
    by (simp add: e)
  moreover have "world (snd (db_exec env db sql s)) = snd (esp_timer_get_time env w2)"
    if "r = SQLITE_OK"
    using that c by (simp add: e)
  moreover have "world (snd (db_exec env db sql s)) =
      snd (esp_timer_get_time env (sqlite3_free env msg w2))" if "r \<noteq> SQLITE_OK"
    using that c by (simp add: e)
  moreover have "\<exists>post. trace (snd (db_exec env db sql s)) =
             trace s @ [Stdout (sql @ ''\<newline>''), Esp_timer_get_time t0, Sqlite3_exec db sql r] @
             map Stdout (deliver rows) @
             [Stdout (''SQL error: '' @ str_arg msg @ ''\<newline>''), Sqlite3_free msg] @ post"
    if "r \<noteq> SQLITE_OK"
    using that by (simp add: e)
  ultimately show ?thesis by blast
qed

theorem db_exec_reports_failure_witness:
  "esp_timer_get_time failing_env (world opened) = (5000, \<lparr>clock = 5001, closed = []\<rparr>)
   \<and> sqlite3_exec failing_env 101 ''CREATE TABLE test1 (id INTEGER, content);'' (zErrMsg opened)
        \<lparr>clock = 5001, closed = []\<rparr> =
       ((1, [], Some ''SQL logic error''), \<lparr>clock = 5251, closed = []\<rparr>)
   \<and> fst (db_exec failing_env 101 ''CREATE TABLE test1 (id INTEGER, content);'' opened) = 1
   \<and> (\<exists>post. trace (snd (db_exec failing_env 101 ''CREATE TABLE test1 (id INTEGER, content);''
                           opened)) =
         [Stdout ''CREATE TABLE test1 (id INTEGER, content);\<newline>'', Esp_timer_get_time 5000,
          Sqlite3_exec 101 ''CREATE TABLE test1 (id INTEGER, content);'' 1,
          Stdout ''SQL error: SQL logic error\<newline>'', Sqlite3_free (Some ''SQL logic error'')] @ post)"
proof -
  have t: "esp_timer_get_time failing_env (world opened) = (5000, \<lparr>clock = 5001, closed = []\<rparr>)"
    by (simp add: failing_env_def sim_env_def opened_def sim_start_def)
  have x: "sqlite3_exec failing_env 101 ''CREATE TABLE test1 (id INTEGER, content);''
        (zErrMsg opened) \<lparr>clock = 5001, closed = []\<rparr> =
       ((1, [], Some ''SQL logic error''), \<lparr>clock = 5251, closed = []\<rparr>)"
    by (simp add: failing_env_def sim_env_def opened_def)
  show ?thesis
    using db_exec_reports_failure [OF t x] t x
    by (simp add: SQLITE_OK_def str_arg_def opened_def)
qed



subsection \<open>The mount\<close>

text \<open>
  Claim C8. When the mount returns a status other than \<^verbatim>\<open>ESP_OK\<close>, the whole run is:
  the log line that announces the mount, the one call that mounts, and one error log
  line that names the kind of failure (mount or format failed, partition not found, or
  the name of any other error). Nothing follows: no second mount, no usage query, no
  open, no statement, no close; the world is left as the failed mount left it.
\<close>

theorem mount_failure_ends_run:
  assumes "esp_vfs_spiffs_register env spiffs_conf (world s) = (ret, w)"
    and "ret \<noteq> ESP_OK"
  shows "trace (app_main env s) =
     trace s @
     [Log Info TAG ''Initializing SPIFFS'', Esp_vfs_spiffs_register spiffs_conf ret,
      Log Error TAG
        (if ret = ESP_FAIL then ''Failed to mount or format filesystem''
         else if ret = ESP_ERR_NOT_FOUND then ''Failed to find SPIFFS partition''
         else ''Failed to initialize SPIFFS ('' @ esp_err_to_name env ret @ '')'')]
     \<and> world (app_main env s) = w"
  using assms(2)
  by (simp add: app_main_stages mount_stage_eq [OF assms(1)] mount_failure_log_trace)

theorem mount_failure_ends_run_witness:
  "esp_vfs_spiffs_register unmounted_env spiffs_conf (world (init_state sim_start)) =
     (261, sim_start)
   \<and> (261 :: int) \<noteq> ESP_OK
   \<and> trace (app_main unmounted_env (init_state sim_start)) =
     [Log Info ''sqlite3_spiffs'' ''Initializing SPIFFS'', Esp_vfs_spiffs_register spiffs_conf 261,
      Log Error ''sqlite3_spiffs'' ''Failed to find SPIFFS partition'']
   \<and> world (app_main unmounted_env (init_state sim_start)) = sim_start"
proof -
  have m: "esp_vfs_spiffs_register unmounted_env spiffs_conf (world (init_state sim_start)) =
     (261, sim_start)"
    by (simp add: unmounted_env_def sim_env_def init_state_def)
  have n: "(261 :: int) \<noteq> ESP_OK"
    by (simp add: ESP_OK_def)
  show ?thesis
    using mount_failure_ends_run [OF m n] m n
    by (simp add: ESP_FAIL_def ESP_ERR_NOT_FOUND_def TAG_def init_state_def)
qed

subsection \<open>Runs of the simulated libraries\<close>

lemmas run_defs =
  app_main_stages database_phase_stages mount_stage_def mount_failure_log_def usage_stage_def
  usage_log_def open1_stage_def open2_stage_def steps_stage_def close_stage_def
  create_db_def insert_data_def select_data_def close_both_def db_open_def db_exec_def
  call_esp_vfs_spiffs_register_def call_esp_spiffs_info_def call_unlink_def
  call_sqlite3_initialize_def call_sqlite3_errmsg_def call_sqlite3_free_def
  call_sqlite3_close_def call_esp_vfs_spiffs_unregister_def call_esp_timer_get_time_def
  call_sqlite3_exec_def call_sqlite3_open_def emit_def printf_def ESP_LOGI_def ESP_LOGE_def
  sim_env_def sim_start_def init_state_def Let_def SQLITE_OK_def ESP_OK_def

lemma failing_run:
  "lifecycle (trace (app_main failing_env (init_state sim_start))) =
     [Esp_vfs_spiffs_register spiffs_conf 0, Esp_spiffs_info None 0,
      Unlink ''/spiffs/test1.db'', Unlink ''/spiffs/test2.db'', Sqlite3_initialize,
      Sqlite3_open ''/spiffs/test1.db'' 0 101, Sqlite3_open ''/spiffs/test2.db'' 0 102,
      Sqlite3_exec 101 ''CREATE TABLE test1 (id INTEGER, content);'' 1,
      Sqlite3_close 101, Sqlite3_close 102,
      Sqlite3_exec 101
        ''INSERT INTO test1 VALUES (1, 'Hello, World from test1, ESP-IDF 5.1.1');'' 21,
      Sqlite3_close 101, Sqlite3_close 102,
      Sqlite3_exec 101 ''SELECT * FROM test1'' 21,
      Sqlite3_close 101, Sqlite3_close 102,
      Sqlite3_close 101, Sqlite3_close 102, Esp_vfs_spiffs_unregister None]"
  by (simp add: run_defs failing_env_def cong: let_weak_cong prod.case_cong_weak)

lemma working_run:
  "lifecycle (trace (app_main working_env (init_state sim_start))) =
     [Esp_vfs_spiffs_register spiffs_conf 0, Esp_spiffs_info None 0,
      Unlink ''/spiffs/test1.db'', Unlink ''/spiffs/test2.db'', Sqlite3_initialize,
      Sqlite3_open ''/spiffs/test1.db'' 0 101, Sqlite3_open ''/spiffs/test2.db'' 0 102,
      Sqlite3_exec 101 ''CREATE TABLE test1 (id INTEGER, content);'' 0,
      Sqlite3_exec 102 ''CREATE TABLE test2 (id INTEGER, content);'' 0,
      Sqlite3_exec 101
        ''INSERT INTO test1 VALUES (1, 'Hello, World from test1, ESP-IDF 5.1.1');'' 0,
      Sqlite3_exec 102
        ''INSERT INTO test2 VALUES (1, 'Hello, World from test2, ESP-IDF 5.1.1');'' 0,
      Sqlite3_exec 101 ''SELECT * FROM test1'' 0,
      Sqlite3_exec 102 ''SELECT * FROM test2'' 0,
      Sqlite3_close 101, Sqlite3_close 102, Esp_vfs_spiffs_unregister None]"
  by (simp add: run_defs working_env_def cong: let_weak_cong prod.case_cong_weak)

lemma second_open_run:
  "lifecycle (trace (app_main second_open_env (init_state sim_start))) =
     [Esp_vfs_spiffs_register spiffs_conf 0, Esp_spiffs_info None 0,
      Unlink ''/spiffs/test1.db'', Unlink ''/spiffs/test2.db'', Sqlite3_initialize,
      Sqlite3_open ''/spiffs/test1.db'' 0 101, Sqlite3_open ''/spiffs/test2.db'' 14 102]"
  by (simp add: run_defs second_open_env_def cong: let_weak_cong prod.case_cong_weak)

subsection \<open>Lifecycle events within the whole trace\<close>

lemma in_lifecycle: "e \<in> set (lifecycle tr) \<longleftrightarrow> e \<in> set tr \<and> is_lifecycle e"
  by (simp add: lifecycle_def)

lemma failed_is_lifecycle: "failed e \<Longrightarrow> is_lifecycle e"
  by (cases e) simp_all

lemma is_close_is_lifecycle: "is_close e \<Longrightarrow> is_lifecycle e"
  by (cases e) simp_all

lemma is_open_is_lifecycle: "is_open e \<Longrightarrow> is_lifecycle e"
  by (cases e) simp_all

lemma is_exec_is_lifecycle: "is_exec e \<Longrightarrow> is_lifecycle e"
  by (cases e) simp_all

lemma is_unregister_is_lifecycle: "is_unregister e \<Longrightarrow> is_lifecycle e"
  by (cases e) simp_all

lemma filter_lifecycle:
  assumes "\<And>e. P e \<Longrightarrow> is_lifecycle e"
  shows "filter P (lifecycle tr) = filter P tr"
  unfolding lifecycle_def filter_filter
  by (rule filter_cong) (use assms in auto)

lemma step_calls_no_open: "\<not> is_open e" if "e \<in> set (step_calls h1 h2 q1 q2 a b)"
  using that by (auto simp: step_calls_def split: if_splits)

lemma step_calls_first: "Sqlite3_exec h1 q1 a \<in> set (step_calls h1 h2 q1 q2 a b)"
  by (simp add: step_calls_def)

lemma step_calls_second:
  "a = SQLITE_OK \<Longrightarrow> Sqlite3_exec h2 q2 b \<in> set (step_calls h1 h2 q1 q2 a b)"
  by (simp add: step_calls_def)

lemma step_calls_ok:
  "step_calls h1 h2 q1 q2 SQLITE_OK SQLITE_OK = [Sqlite3_exec h1 q1 SQLITE_OK, Sqlite3_exec h2 q2 SQLITE_OK]"
  by (simp add: step_calls_def)

subsection \<open>The database phase\<close>


text \<open>
  Claim C9. In every run whose trace records a successful open of the first file and a
  failed open of the second, the failed open is the last lifecycle event: the handle of
  the first database is never closed and the filesystem is never unmounted.
\<close>

theorem second_open_failure_leaks_first:
  assumes "Sqlite3_open ''/spiffs/test1.db'' 0 h1 \<in> set (trace (app_main env (init_state w)))"
    and "Sqlite3_open ''/spiffs/test2.db'' r2 h2 \<in> set (trace (app_main env (init_state w)))"
    and "r2 \<noteq> 0"
  shows "filter is_close (trace (app_main env (init_state w))) = []
     \<and> filter is_unregister (trace (app_main env (init_state w))) = []
     \<and> last (lifecycle (trace (app_main env (init_state w)))) =
         Sqlite3_open ''/spiffs/test2.db'' r2 h2"
proof -
  define tr where "tr = trace (app_main env (init_state w))"
  obtain ret ri r1 k1 r2' k2 a b c d e f where
    run: "lifecycle tr = run_calls ret ri r1 k1 r2' k2 a b c d e f"
    using app_main_calls [of env "init_state w"] by (auto simp: init_state_def tr_def)
  have o1: "Sqlite3_open ''/spiffs/test1.db'' 0 h1 \<in> set (lifecycle tr)"
    and o2: "Sqlite3_open ''/spiffs/test2.db'' r2 h2 \<in> set (lifecycle tr)"
    using assms(1,2) by (simp_all add: in_lifecycle tr_def)
  have no_open: "Sqlite3_open p r h \<notin> set (step_calls x y q1 q2 u v)" for p r h x y q1 q2 u v
    using step_calls_no_open [of "Sqlite3_open p r h" x y q1 q2 u v] by auto
  have ret: "ret = ESP_OK"
    using o1 by (auto simp: run run_calls_def split: if_splits)
  have r1: "r1 = 0"
    using o1 no_open by (auto simp: run run_calls_def db_calls_def ret split: if_splits)
  have r2': "r2' = r2 \<and> k2 = h2"
    using o2 no_open by (auto simp: run run_calls_def db_calls_def ret r1 split: if_splits)
  have l: "lifecycle tr =
      [Esp_vfs_spiffs_register spiffs_conf ESP_OK, Esp_spiffs_info None ri,
       Unlink ''/spiffs/test1.db'', Unlink ''/spiffs/test2.db'', Sqlite3_initialize,
       Sqlite3_open ''/spiffs/test1.db'' 0 k1, Sqlite3_open ''/spiffs/test2.db'' r2 h2]"
    using assms(3) by (simp add: run run_calls_def db_calls_def ret r1 r2')
  have "filter is_close tr = filter is_close (lifecycle tr)"
    by (rule filter_lifecycle [symmetric]) (rule is_close_is_lifecycle)
  moreover have "filter is_unregister tr = filter is_unregister (lifecycle tr)"
    by (rule filter_lifecycle [symmetric]) (rule is_unregister_is_lifecycle)
  ultimately show ?thesis
    unfolding tr_def [symmetric] by (simp add: l)
qed

theorem second_open_failure_leaks_first_witness:
  "Sqlite3_open ''/spiffs/test1.db'' 0 101
     \<in> set (trace (app_main second_open_env (init_state sim_start)))
   \<and> Sqlite3_open ''/spiffs/test2.db'' 14 102
     \<in> set (trace (app_main second_open_env (init_state sim_start)))
   \<and> (14 :: int) \<noteq> 0
   \<and> filter is_close (trace (app_main second_open_env (init_state sim_start))) = []
   \<and> filter is_unregister (trace (app_main second_open_env (init_state sim_start))) = []
   \<and> last (lifecycle (trace (app_main second_open_env (init_state sim_start)))) =
         Sqlite3_open ''/spiffs/test2.db'' 14 102"
proof -
  have o1: "Sqlite3_open ''/spiffs/test1.db'' 0 101
      \<in> set (trace (app_main second_open_env (init_state sim_start)))"
    using in_lifecycle [of "Sqlite3_open ''/spiffs/test1.db'' 0 101"
        "trace (app_main second_open_env (init_state sim_start))"]
    by (simp add: second_open_run)
  have o2: "Sqlite3_open ''/spiffs/test2.db'' 14 102
      \<in> set (trace (app_main second_open_env (init_state sim_start)))"
    using in_lifecycle [of "Sqlite3_open ''/spiffs/test2.db'' 14 102"
        "trace (app_main second_open_env (init_state sim_start))"]
    by (simp add: second_open_run)
  have n: "(14 :: int) \<noteq> 0" by simp
  show ?thesis
    using second_open_failure_leaks_first [OF o1 o2 n] o1 o2 n by blast
qed

text \<open>
  Claim C4. In every run whose trace records no failed mount, open or statement (the
  list of its failed events is empty), both files are opened, the six statements are executed, and the closes are
  exactly one close of the first handle followed by one close of the second: as many
  closes as successful opens, two of each, and of the same handles.
\<close>

theorem success_closes_equal_opens:
  assumes "filter failed (trace (app_main env (init_state w))) = []"
  shows "\<exists>h1 h2.
     filter is_open (trace (app_main env (init_state w))) =
       [Sqlite3_open ''/spiffs/test1.db'' 0 h1, Sqlite3_open ''/spiffs/test2.db'' 0 h2]
     \<and> filter is_close (trace (app_main env (init_state w))) =
       [Sqlite3_close h1, Sqlite3_close h2]
     \<and> length (filter is_exec (trace (app_main env (init_state w)))) = 6
     \<and> length (filter is_close (trace (app_main env (init_state w)))) = 2
     \<and> length (filter is_open_ok (trace (app_main env (init_state w)))) = 2"
proof -
  define tr where "tr = trace (app_main env (init_state w))"
  obtain ret ri r1 h1 r2 h2 a b c d e f where
    run: "lifecycle tr = run_calls ret ri r1 h1 r2 h2 a b c d e f"
    using app_main_calls [of env "init_state w"] by (auto simp: init_state_def tr_def)
  have nf: "\<not> failed x" if "x \<in> set (run_calls ret ri r1 h1 r2 h2 a b c d e f)" for x
    using that assms by (simp add: run [symmetric] in_lifecycle tr_def filter_empty_conv)
  have ret: "ret = ESP_OK"
    using nf [of "Esp_vfs_spiffs_register spiffs_conf ret"] by (simp add: run_calls_def)
  have r1: "r1 = 0"
    using nf [of "Sqlite3_open ''/spiffs/test1.db'' r1 h1"]
    by (simp add: run_calls_def db_calls_def ret)
  have r2: "r2 = 0"
    using nf [of "Sqlite3_open ''/spiffs/test2.db'' r2 h2"]
    by (simp add: run_calls_def db_calls_def ret r1)
  have create: "set (step_calls h1 h2 ''CREATE TABLE test1 (id INTEGER, content);''
        ''CREATE TABLE test2 (id INTEGER, content);'' a b)
      \<subseteq> set (run_calls ret ri r1 h1 r2 h2 a b c d e f)"
    by (auto simp: run_calls_def db_calls_def ret r1 r2)
  have insert: "set (step_calls h1 h2
        ''INSERT INTO test1 VALUES (1, 'Hello, World from test1, ESP-IDF 5.1.1');''
        ''INSERT INTO test2 VALUES (1, 'Hello, World from test2, ESP-IDF 5.1.1');'' c d)
      \<subseteq> set (run_calls ret ri r1 h1 r2 h2 a b c d e f)"
    by (auto simp: run_calls_def db_calls_def ret r1 r2)
  have select: "set (step_calls h1 h2 ''SELECT * FROM test1'' ''SELECT * FROM test2'' e f)
      \<subseteq> set (run_calls ret ri r1 h1 r2 h2 a b c d e f)"
    by (auto simp: run_calls_def db_calls_def ret r1 r2)
  have ok: "u = SQLITE_OK \<and> v = SQLITE_OK"
    if "set (step_calls h1 h2 q1 q2 u v) \<subseteq> set (run_calls ret ri r1 h1 r2 h2 a b c d e f)"
    for q1 q2 u v
  proof -
    have u: "u = SQLITE_OK"
      using nf [of "Sqlite3_exec h1 q1 u"] that step_calls_first [of h1 q1 u h2 q2 v] by auto
    then have "v = SQLITE_OK"
      using nf [of "Sqlite3_exec h2 q2 v"] that step_calls_second [of u h2 q2 v h1 q1] by auto
    with u show ?thesis by simp
  qed
  have ab: "a = SQLITE_OK \<and> b = SQLITE_OK" by (rule ok [OF create])
  have cd: "c = SQLITE_OK \<and> d = SQLITE_OK" by (rule ok [OF insert])
  have ef: "e = SQLITE_OK \<and> f = SQLITE_OK" by (rule ok [OF select])
  have l: "lifecycle tr =
     [Esp_vfs_spiffs_register spiffs_conf ESP_OK, Esp_spiffs_info None ri,
      Unlink ''/spiffs/test1.db'', Unlink ''/spiffs/test2.db'', Sqlite3_initialize,
      Sqlite3_open ''/spiffs/test1.db'' 0 h1, Sqlite3_open ''/spiffs/test2.db'' 0 h2,
      Sqlite3_exec h1 ''CREATE TABLE test1 (id INTEGER, content);'' SQLITE_OK,
      Sqlite3_exec h2 ''CREATE TABLE test2 (id INTEGER, content);'' SQLITE_OK,
      Sqlite3_exec h1
        ''INSERT INTO test1 VALUES (1, 'Hello, World from test1, ESP-IDF 5.1.1');'' SQLITE_OK,
      Sqlite3_exec h2
        ''INSERT INTO test2 VALUES (1, 'Hello, World from test2, ESP-IDF 5.1.1');'' SQLITE_OK,
      Sqlite3_exec h1 ''SELECT * FROM test1'' SQLITE_OK,
      Sqlite3_exec h2 ''SELECT * FROM test2'' SQLITE_OK,
      Sqlite3_close h1, Sqlite3_close h2, Esp_vfs_spiffs_unregister None]"
    by (simp add: run run_calls_def db_calls_def ret r1 r2 ab cd ef step_calls_ok)
  have open_ok: "is_open_ok x \<Longrightarrow> is_lifecycle x" for x
    by (cases x) simp_all
  have "filter is_open tr = filter is_open (lifecycle tr)"
    by (rule filter_lifecycle [symmetric]) (rule is_open_is_lifecycle)
  moreover have "filter is_close tr = filter is_close (lifecycle tr)"
    by (rule filter_lifecycle [symmetric]) (rule is_close_is_lifecycle)
  moreover have "filter is_exec tr = filter is_exec (lifecycle tr)"
    by (rule filter_lifecycle [symmetric]) (rule is_exec_is_lifecycle)
  moreover have "filter is_open_ok tr = filter is_open_ok (lifecycle tr)"
    by (rule filter_lifecycle [symmetric]) (rule open_ok)
  ultimately have "filter is_open tr =
       [Sqlite3_open ''/spiffs/test1.db'' 0 h1, Sqlite3_open ''/spiffs/test2.db'' 0 h2]
     \<and> filter is_close tr = [Sqlite3_close h1, Sqlite3_close h2]
     \<and> length (filter is_exec tr) = 6
     \<and> length (filter is_close tr) = 2
     \<and> length (filter is_open_ok tr) = 2"
    by (simp add: l)
  then show ?thesis
    unfolding tr_def by blast
qed

theorem success_closes_equal_opens_witness:
  "filter failed (trace (app_main working_env (init_state sim_start))) = []
   \<and> (\<exists>h1 h2.
     filter is_open (trace (app_main working_env (init_state sim_start))) =
       [Sqlite3_open ''/spiffs/test1.db'' 0 h1, Sqlite3_open ''/spiffs/test2.db'' 0 h2]
     \<and> filter is_close (trace (app_main working_env (init_state sim_start))) =
       [Sqlite3_close h1, Sqlite3_close h2]
     \<and> length (filter is_exec (trace (app_main working_env (init_state sim_start)))) = 6
     \<and> length (filter is_close (trace (app_main working_env (init_state sim_start)))) = 2
     \<and> length (filter is_open_ok (trace (app_main working_env (init_state sim_start)))) = 2)"
proof -
  have "\<not> failed e" if "e \<in> set (trace (app_main working_env (init_state sim_start)))" for e
  proof
    assume f: "failed e"
    then have "e \<in> set (lifecycle (trace (app_main working_env (init_state sim_start))))"
      using that by (simp add: in_lifecycle failed_is_lifecycle)
    then show False
      using f unfolding working_run by (auto simp: ESP_OK_def SQLITE_OK_def)
  qed
  then have h: "filter failed (trace (app_main working_env (init_state sim_start))) = []"
    by (simp add: filter_empty_conv)
  show ?thesis
    using success_closes_equal_opens [OF h] h by blast
qed

subsection \<open>The usage query\<close>

text \<open>
  Claim C10. When the mount succeeds, the run is: the two events of the mount, the usage
  query, one log line, and then the database phase, started from the globals with which
  the run began and the world that the query left. The status of the query appears in
  the event of the query and decides which line is logged (an error line when the query
  failed), and nothing else depends on it: the database phase that follows is the same
  function of the same state whether the query failed or succeeded, and it begins with
  the removal of the two files, the initialisation of the engine and the first open.
\<close>

theorem usage_failure_not_fatal:
  assumes "esp_vfs_spiffs_register env spiffs_conf (world s) = (ESP_OK, w)"
    and "esp_spiffs_info env None w = ((ret', tot, usd), w')"
  shows "app_main env s =
       shift (trace s @
              [Log Info TAG ''Initializing SPIFFS'',
               Esp_vfs_spiffs_register spiffs_conf ESP_OK,
               Esp_spiffs_info None ret', usage_log env ret' tot usd])
         (database_phase env (s\<lparr>world := w', trace := []\<rparr>))
     \<and> (ret' \<noteq> ESP_OK \<longrightarrow>
          usage_log env ret' tot usd =
            Log Error TAG (''Failed to get SPIFFS partition information (''
                            @ esp_err_to_name env ret' @ '')''))
     \<and> (\<exists>r1 h1 rest.
          lifecycle (trace (database_phase env (s\<lparr>world := w', trace := []\<rparr>))) =
            [Unlink ''/spiffs/test1.db'', Unlink ''/spiffs/test2.db'', Sqlite3_initialize,
             Sqlite3_open ''/spiffs/test1.db'' r1 h1] @ rest)"
proof -
  define pre where "pre = trace s @
              [Log Info TAG ''Initializing SPIFFS'',
               Esp_vfs_spiffs_register spiffs_conf ESP_OK,
               Esp_spiffs_info None ret', usage_log env ret' tot usd]"
  define s0 where "s0 = s\<lparr>world := w', trace := []\<rparr>"
  have m: "mount_stage env s =
      (ESP_OK, s\<lparr>world := w, trace := trace s @ [Log Info TAG ''Initializing SPIFFS'',
                                  Esp_vfs_spiffs_register spiffs_conf ESP_OK]\<rparr>)"
    by (rule mount_stage_eq [OF assms(1)])
  have u: "usage_stage env (snd (mount_stage env s)) = shift pre s0"
    using assms(2) by (simp add: m usage_stage_eq [of env _ ret' tot usd w'] shift_def pre_def s0_def)
  have "app_main env s = shift pre (database_phase env s0)"
    by (simp add: app_main_stages m [THEN arg_cong [where f = fst]] u database_phase_shift)
  moreover obtain r1 h1 r2 h2 a b c d e f where
    "lifecycle (trace (database_phase env s0)) =
       lifecycle (trace s0) @ db_calls r1 h1 r2 h2 a b c d e f"
    using database_phase_calls [of env s0] by blast
  then have "\<exists>r1 h1 rest. lifecycle (trace (database_phase env s0)) =
            [Unlink ''/spiffs/test1.db'', Unlink ''/spiffs/test2.db'', Sqlite3_initialize,
             Sqlite3_open ''/spiffs/test1.db'' r1 h1] @ rest"
    by (simp add: s0_def db_calls_def)
  moreover have "usage_log env ret' tot usd =
            Log Error TAG (''Failed to get SPIFFS partition information (''
                            @ esp_err_to_name env ret' @ '')'')" if "ret' \<noteq> ESP_OK"
    using that by (simp add: usage_log_def)
  ultimately show ?thesis
    unfolding pre_def s0_def by blast
qed

theorem usage_failure_not_fatal_witness:
  "esp_vfs_spiffs_register no_usage_env spiffs_conf (world (init_state sim_start)) =
     (ESP_OK, sim_start)
   \<and> esp_spiffs_info no_usage_env None sim_start = ((259, 1000000, 2000), sim_start)
   \<and> (259 :: int) \<noteq> ESP_OK
   \<and> app_main no_usage_env (init_state sim_start) =
       shift (trace (init_state sim_start) @
              [Log Info TAG ''Initializing SPIFFS'',
               Esp_vfs_spiffs_register spiffs_conf ESP_OK,
               Esp_spiffs_info None 259, usage_log no_usage_env 259 1000000 2000])
         (database_phase no_usage_env ((init_state sim_start)\<lparr>world := sim_start, trace := []\<rparr>))
   \<and> usage_log no_usage_env 259 1000000 2000 =
       Log Error TAG (''Failed to get SPIFFS partition information (''
                       @ esp_err_to_name no_usage_env 259 @ '')'')"
proof -
  have m: "esp_vfs_spiffs_register no_usage_env spiffs_conf (world (init_state sim_start)) =
     (ESP_OK, sim_start)"
    by (simp add: no_usage_env_def sim_env_def init_state_def ESP_OK_def)
  have u: "esp_spiffs_info no_usage_env None sim_start = ((259, 1000000, 2000), sim_start)"
    by (simp add: no_usage_env_def sim_env_def)
  have n: "(259 :: int) \<noteq> ESP_OK"
    by (simp add: ESP_OK_def)
  show ?thesis
    using usage_failure_not_fatal [OF m u] m u n by blast
qed

subsection \<open>A statement that fails\<close>

text \<open>
  Claim C1, on the simulated libraries whose engine fails on the first
  \<^verbatim>\<open>CREATE TABLE\<close>. The step closes both handles and returns to the main function,
  which does not look at the status and goes on with the next steps. The statements
  submitted in this run are the failed one and, after it, the first statement of each
  later step, on the handle that has been closed.
\<close>

theorem create_failure_runs_later_steps:
  "filter is_exec (trace (app_main failing_env (init_state sim_start))) =
     [Sqlite3_exec 101 ''CREATE TABLE test1 (id INTEGER, content);'' 1,
      Sqlite3_exec 101
        ''INSERT INTO test1 VALUES (1, 'Hello, World from test1, ESP-IDF 5.1.1');'' 21,
      Sqlite3_exec 101 ''SELECT * FROM test1'' 21]"
proof -
  have "filter is_exec (trace (app_main failing_env (init_state sim_start))) =
      filter is_exec (lifecycle (trace (app_main failing_env (init_state sim_start))))"
    by (rule filter_lifecycle [symmetric]) (rule is_exec_is_lifecycle)
  then show ?thesis
    by (simp add: failing_run)
qed

text \<open>
  Claim C2, on the same run. The second \<^verbatim>\<open>CREATE TABLE\<close> is never submitted, and each
  of the two handles is closed four times: by the failed step, by each of the two later
  steps, whose statement the closed handle refuses, and by the end of the main function.
\<close>

theorem create_failure_closes_again:
  "filter is_close (trace (app_main failing_env (init_state sim_start))) =
     [Sqlite3_close 101, Sqlite3_close 102, Sqlite3_close 101, Sqlite3_close 102,
      Sqlite3_close 101, Sqlite3_close 102, Sqlite3_close 101, Sqlite3_close 102]
   \<and> (\<forall>h r. Sqlite3_exec h ''CREATE TABLE test2 (id INTEGER, content);'' r
         \<notin> set (trace (app_main failing_env (init_state sim_start))))"
proof -
  have "filter is_close (trace (app_main failing_env (init_state sim_start))) =
      filter is_close (lifecycle (trace (app_main failing_env (init_state sim_start))))"
    by (rule filter_lifecycle [symmetric]) (rule is_close_is_lifecycle)
  then have "filter is_close (trace (app_main failing_env (init_state sim_start))) =
     [Sqlite3_close 101, Sqlite3_close 102, Sqlite3_close 101, Sqlite3_close 102,
      Sqlite3_close 101, Sqlite3_close 102, Sqlite3_close 101, Sqlite3_close 102]"
    by (simp add: failing_run)
  moreover have "Sqlite3_exec h ''CREATE TABLE test2 (id INTEGER, content);'' r
         \<notin> set (trace (app_main failing_env (init_state sim_start)))" for h r
    using in_lifecycle [of "Sqlite3_exec h ''CREATE TABLE test2 (id INTEGER, content);'' r"
        "trace (app_main failing_env (init_state sim_start))"]
    by (simp add: failing_run)
  ultimately show ?thesis by blast
qed

subsection \<open>Files removed before they are opened\<close>
















end
